theory Spec2Isabelle
  imports Main "HOL-Library.Word" "HOL-Library.Multiset"
begin

section \<open>Jobserver configuration parser (jobserver.cc)\<close>

text \<open>
  The MAKEFLAGS parser of \<^verbatim>\<open>src/jobserver.cc\<close>.  C strings are HOL strings (NUL-free
  character lists), a possibly null \<^verbatim>\<open>const char*\<close> is a \<open>string option\<close>.  The parser's
  boolean result together with its out-parameters is a sum: \<open>Inl\<close> carries the error,
  \<open>Inr\<close> the configuration written to \<^verbatim>\<open>*config\<close>.
\<close>

datatype Mode = kModeNone | kModeFileDescriptors | kModePosixFifo | kModeWin32Semaphore

record Config =
  mode :: Mode
  read_fd :: int
  write_fd :: int
  path :: string

text \<open>
  Modelled from the spec: the header \<^verbatim>\<open>jobserver.h\<close>, which declares \<^verbatim>\<open>Jobserver::Config\<close>,
  its \<^verbatim>\<open>Mode\<close> enumeration and the default member values, is missing.  The spec's data
  model gives the four modes None, FileDescriptors, Fifo and Win32Semaphore, a descriptor
  pair and a path; a default-constructed Config has Mode None.  The descriptors of a
  default Config are taken to be \<open>-1\<close> (no descriptor) and the path empty.
\<close>

definition Config_default :: Config where
  "Config_default = \<lparr>mode = kModeNone, read_fd = - 1, write_fd = - 1, path = []\<rparr>"

datatype parse_error =
    InvalidDescriptorPair string
  | ConversionOverflow

definition INT_MAX :: int where
  "INT_MAX = 2147483647"

definition INT_MIN :: int where
  "INT_MIN = - 2147483648"

text \<open>\<^verbatim>\<open>GetPrefixedValue\<close>: the rest of the input after the prefix, if it starts with it.\<close>

definition GetPrefixedValue :: "string \<Rightarrow> string \<Rightarrow> string option" where
  "GetPrefixedValue input pfx =
     (if length input < length pfx \<or> take (length pfx) input \<noteq> pfx then None
      else Some (drop (length pfx) input))"

subsection \<open>The \<^verbatim>\<open>sscanf(s, "%d,%d", &r, &w)\<close> call\<close>

definition isspace :: "char \<Rightarrow> bool" where
  "isspace c \<longleftrightarrow> c = CHR '' '' \<or> c = CHR 0x09 \<or> c = CHR 0x0A \<or> c = CHR 0x0B
                 \<or> c = CHR 0x0C \<or> c = CHR 0x0D"

definition isdigit :: "char \<Rightarrow> bool" where
  "isdigit c \<longleftrightarrow> (48::nat) \<le> of_char c \<and> (of_char c :: nat) \<le> 57"

definition digit_value :: "char \<Rightarrow> nat" where
  "digit_value c = of_char c - 48"

definition dec_value :: "string \<Rightarrow> nat" where
  "dec_value ds = foldl (\<lambda>a c. 10 * a + digit_value c) 0 ds"

text \<open>
  One \<^verbatim>\<open>%d\<close> conversion: white space is skipped, an optional sign is read, then the
  longest run of decimal digits.  No digit is a matching failure.  A value that does not
  fit the \<^verbatim>\<open>int\<close> object is undefined behaviour in C; the model makes it the outcome
  \<open>Overflow\<close>.
\<close>

datatype conv = NoMatch | Overflow | Conv int string

definition scan_sign :: "string \<Rightarrow> bool \<times> string" where
  "scan_sign s =
     (case s of
        [] \<Rightarrow> (False, [])
      | c # r \<Rightarrow> if c = CHR ''-'' then (True, r)
                 else if c = CHR ''+'' then (False, r)
                 else (False, s))"

definition scanf_d :: "string \<Rightarrow> conv" where
  "scanf_d s =
     (let s1 = dropWhile isspace s;
          neg = fst (scan_sign s1);
          s2 = snd (scan_sign s1);
          ds = takeWhile isdigit s2;
          rest = dropWhile isdigit s2
      in if ds = [] then NoMatch
         else let v = (if neg then - int (dec_value ds) else int (dec_value ds))
              in if INT_MIN \<le> v \<and> v \<le> INT_MAX then Conv v rest else Overflow)"

text \<open>
  The whole call.  The result holds the return value of \<^verbatim>\<open>sscanf\<close> (the number of
  conversions stored, \<open>-1\<close> for EOF before the first conversion) and the two target
  objects, which keep their old value where no conversion was stored.
\<close>

definition sscanf_d_comma_d :: "string \<Rightarrow> int \<Rightarrow> int \<Rightarrow> parse_error + (int \<times> int \<times> int)" where
  "sscanf_d_comma_d s r w =
     (case scanf_d s of
        Overflow \<Rightarrow> Inl ConversionOverflow
      | NoMatch \<Rightarrow> Inr (if dropWhile isspace s = [] then - 1 else 0, r, w)
      | Conv a rest \<Rightarrow>
          (case rest of
             [] \<Rightarrow> Inr (1, a, w)
           | c # rest' \<Rightarrow>
               if c \<noteq> CHR '','' then Inr (1, a, w)
               else (case scanf_d rest' of
                       Overflow \<Rightarrow> Inl ConversionOverflow
                     | NoMatch \<Rightarrow> Inr (1, a, w)
                     | Conv b _ \<Rightarrow> Inr (2, a, b))))"

text \<open>
  \<^verbatim>\<open>GetFileDescriptorPair\<close>: the boolean result and the configuration as the call leaves
  it (a failed call may already have stored the first descriptor).
\<close>

definition GetFileDescriptorPair :: "string \<Rightarrow> Config \<Rightarrow> parse_error + (bool \<times> Config)" where
  "GetFileDescriptorPair input config =
     (case sscanf_d_comma_d input (read_fd config) (write_fd config) of
        Inl e \<Rightarrow> Inl e
      | Inr (n, r, w) \<Rightarrow>
          (let config1 = config\<lparr>read_fd := r, write_fd := w\<rparr>
           in if n \<noteq> 2 then Inr (False, config1)
              else if read_fd config1 < 0 \<or> write_fd config1 < 0
                   then Inr (True, config1\<lparr>mode := kModeNone\<rparr>)
                   else Inr (True, config1\<lparr>mode := kModeFileDescriptors\<rparr>)))"

subsection \<open>\<^verbatim>\<open>Jobserver::ParseMakeFlagsValue\<close>\<close>

definition is_sep :: "char \<Rightarrow> bool" where
  "is_sep c \<longleftrightarrow> c = CHR '' '' \<or> c = CHR 0x09"

text \<open>
  The tokenizer loop: \<open>p\<close> is the unread rest of the input; the next space or tab is
  looked up, the word before it is kept when it is not empty, and the loop goes on
  after the separator.  Without a separator the rest is the last word.
\<close>

function split_args :: "string \<Rightarrow> string list" where
  "split_args p =
     (if p = [] then []
      else if dropWhile (\<lambda>c. \<not> is_sep c) p = [] then [p]
      else (if takeWhile (\<lambda>c. \<not> is_sep c) p \<noteq> [] then [takeWhile (\<lambda>c. \<not> is_sep c) p] else [])
           @ split_args (tl (dropWhile (\<lambda>c. \<not> is_sep c) p)))"
  by pat_completeness auto
termination
proof (relation "measure length")
  show "wf (measure length)" by simp
next
  fix p :: string
  assume "p \<noteq> []" and d: "dropWhile (\<lambda>c. \<not> is_sep c) p \<noteq> []"
  have "length (tl (dropWhile (\<lambda>c. \<not> is_sep c) p)) < length (dropWhile (\<lambda>c. \<not> is_sep c) p)"
    using d by (cases "dropWhile (\<lambda>c. \<not> is_sep c) p") simp_all
  also have "\<dots> \<le> length p"
    by (rule length_dropWhile_le)
  finally show "(tl (dropWhile (\<lambda>c. \<not> is_sep c) p), p) \<in> measure length"
    by simp
qed

declare split_args.simps [simp del]

text \<open>The dry-run test on the first word (\<^verbatim>\<open>args[0][0] != '-'\<close> and an \<^verbatim>\<open>n\<close> in it).\<close>

definition dry_run :: "string list \<Rightarrow> bool" where
  "dry_run args =
     (case args of
        [] \<Rightarrow> False
      | a # _ \<Rightarrow> (case a of [] \<Rightarrow> False | c # _ \<Rightarrow> c \<noteq> CHR ''-'') \<and> CHR ''n'' \<in> set a)"

text \<open>The body of the loop over all arguments, for one argument.\<close>

definition scan_arg :: "Config \<Rightarrow> string \<Rightarrow> parse_error + Config" where
  "scan_arg config arg =
     (case GetPrefixedValue arg ''--jobserver-auth='' of
        Some val \<Rightarrow>
          (case GetFileDescriptorPair val config of
             Inl e \<Rightarrow> Inl e
           | Inr (ok, config1) \<Rightarrow>
               if ok then Inr config1
               else (case GetPrefixedValue val ''fifo:'' of
                       Some fifo_path \<Rightarrow> Inr (config1\<lparr>mode := kModePosixFifo, path := fifo_path\<rparr>)
                     | None \<Rightarrow> Inr (config1\<lparr>mode := kModeWin32Semaphore, path := val\<rparr>)))
      | None \<Rightarrow>
          (case GetPrefixedValue arg ''--jobserver-fds='' of
             Some val \<Rightarrow>
               (case GetFileDescriptorPair val config of
                  Inl e \<Rightarrow> Inl e
                | Inr (ok, config1) \<Rightarrow>
                    if \<not> ok
                    then Inl (InvalidDescriptorPair (''Invalid file descriptor pair ['' @ val @ '']''))
                    else Inr (config1\<lparr>mode := kModeFileDescriptors\<rparr>))
           | None \<Rightarrow> Inr config))"

fun scan_args :: "Config \<Rightarrow> string list \<Rightarrow> parse_error + Config" where
  "scan_args config [] = Inr config"
| "scan_args config (arg # args) =
     (case scan_arg config arg of
        Inl e \<Rightarrow> Inl e
      | Inr config1 \<Rightarrow> scan_args config1 args)"

definition ParseMakeFlagsValue :: "string option \<Rightarrow> parse_error + Config" where
  "ParseMakeFlagsValue makeflags_env =
     (case makeflags_env of
        None \<Rightarrow> Inr Config_default
      | Some s \<Rightarrow>
          if s = [] then Inr Config_default
          else if dry_run (split_args s) then Inr Config_default
          else scan_args Config_default (split_args s))"



section \<open>Formatting of integers (\<^verbatim>\<open>%d\<close>, \<^verbatim>\<open>%zu\<close>)\<close>

definition digit_char :: "nat \<Rightarrow> char" where
  "digit_char n = char_of (48 + n)"

function dec_nat :: "nat \<Rightarrow> string" where
  "dec_nat n = (if n < 10 then [digit_char n] else dec_nat (n div 10) @ [digit_char (n mod 10)])"
  by pat_completeness auto
termination
  by (relation "measure id") auto

declare dec_nat.simps [simp del]

definition printf_d :: "int \<Rightarrow> string" where
  "printf_d i = (if i < 0 then CHR ''-'' # dec_nat (nat (- i)) else dec_nat (nat i))"

section \<open>Status table (status_table.h, status_table.cc)\<close>

text \<open>
  \<^verbatim>\<open>int64_t\<close> values are 64-bit words read as signed numbers (\<open>sint\<close>); subtraction
  wraps.  \<^verbatim>\<open>size_t\<close> command ids are 64-bit words read as unsigned numbers; container
  sizes and counts are natural numbers.  A \<^verbatim>\<open>CommandPointer\<close> is an opaque address.
\<close>

type_synonym int64 = "64 word"

type_synonym CommandPointer = nat

definition INT64_MAX :: int64 where
  "INT64_MAX = 9223372036854775807"

record TableConfig =
  max_commands :: nat
  refresh_timeout_ms :: int64

record CommandValue =
  start_time_ms :: int64
  command_id :: "64 word"
  description :: string

datatype TermCall =
    PrintOnCurrentLine string
  | PrintOnNextLine string
  | ClearNextLine
  | MoveUp nat
  | Flush

text \<open>
  Member names lose the trailing underscore of the source (\<^verbatim>\<open>last_status_\<close> is \<open>last_status\<close>; \<^verbatim>\<open>config_\<close> is \<open>table_config\<close>).
  The two scratch members \<^verbatim>\<open>commands_max_queue_\<close> and \<^verbatim>\<open>older_commands_\<close> are empty
  between calls and are local values of \<open>PrintPending\<close> here.
\<close>

record StatusTable =
  table_config :: TableConfig
  last_command_count :: nat
  last_command_id :: "64 word"
  last_update_time_ms :: int64
  last_status :: string
  pending_commands :: "CommandPointer \<rightharpoonup> CommandValue"

definition StatusTable_new :: "TableConfig \<Rightarrow> StatusTable" where
  "StatusTable_new config =
     \<lparr>table_config = config, last_command_count = 0, last_command_id = 0,
      last_update_time_ms = - 1, last_status = [], pending_commands = Map.empty\<rparr>"

definition BuildStarted :: "StatusTable \<Rightarrow> StatusTable" where
  "BuildStarted t = t\<lparr>last_update_time_ms := - 1, last_command_id := 0\<rparr>"

text \<open>\<^verbatim>\<open>emplace\<close> inserts nothing when the key is already in the map.\<close>

definition CommandStarted :: "StatusTable \<Rightarrow> CommandPointer \<Rightarrow> int64 \<Rightarrow> string \<Rightarrow> StatusTable" where
  "CommandStarted t command start description' =
     (let id' = last_command_id t + 1;
          t1 = t\<lparr>last_command_id := id'\<rparr>
      in case pending_commands t1 command of
           Some _ \<Rightarrow> t1
         | None \<Rightarrow> t1\<lparr>pending_commands := (pending_commands t1)
                         (command \<mapsto> \<lparr>start_time_ms = start, command_id = id',
                                       description = description'\<rparr>)\<rparr>)"

datatype table_error = AssertionFailed

definition CommandEnded :: "StatusTable \<Rightarrow> CommandPointer \<Rightarrow> table_error + StatusTable" where
  "CommandEnded t command =
     (case pending_commands t command of
        None \<Rightarrow> Inl AssertionFailed
      | Some _ \<Rightarrow> Inr (t\<lparr>pending_commands := (pending_commands t)(command := None)\<rparr>))"

definition SetStatus :: "StatusTable \<Rightarrow> string \<Rightarrow> StatusTable" where
  "SetStatus t status = t\<lparr>last_status := status\<rparr>"

subsection \<open>The bounded max-queue\<close>

text \<open>
  \<^verbatim>\<open>CommandValuePtrLess\<close>: a null pointer counts as start time \<^verbatim>\<open>INT64_MAX\<close> and id 0.
\<close>

definition CommandValuePtrLess :: "CommandValue option \<Rightarrow> CommandValue option \<Rightarrow> bool" where
  "CommandValuePtrLess a b =
     (let a_start_time = (case a of Some x \<Rightarrow> start_time_ms x | None \<Rightarrow> INT64_MAX);
          b_start_time = (case b of Some x \<Rightarrow> start_time_ms x | None \<Rightarrow> INT64_MAX)
      in if a_start_time \<noteq> b_start_time then sint a_start_time < sint b_start_time
         else let a_id = (case a of Some x \<Rightarrow> command_id x | None \<Rightarrow> 0);
                  b_id = (case b of Some x \<Rightarrow> command_id x | None \<Rightarrow> 0)
              in a_id < b_id)"


text \<open>
  The \<^verbatim>\<open>std::priority_queue\<close> is the list of its elements: \<open>top\<close> is a greatest element
  under the comparator, \<open>pop\<close> removes it, \<open>emplace\<close> adds an element.  The layout of
  the binary heap inside the vector is not modelled.
\<close>

type_synonym MaxQueue = "CommandValue option list"

fun queue_max :: "CommandValue option \<Rightarrow> MaxQueue \<Rightarrow> CommandValue option" where
  "queue_max m [] = m"
| "queue_max m (x # xs) = queue_max (if CommandValuePtrLess m x then x else m) xs"

definition queue_top :: "MaxQueue \<Rightarrow> CommandValue option" where
  "queue_top q = (case q of [] \<Rightarrow> None | x # xs \<Rightarrow> queue_max x xs)"

definition queue_pop :: "MaxQueue \<Rightarrow> MaxQueue" where
  "queue_pop q = remove1 (queue_top q) q"

definition queue_emplace :: "CommandValue option \<Rightarrow> MaxQueue \<Rightarrow> MaxQueue" where
  "queue_emplace x q = x # q"

text \<open>The body of the loop over \<^verbatim>\<open>pending_commands_\<close>, for one entry.\<close>

definition replaces_top :: "CommandValue option \<Rightarrow> CommandValue \<Rightarrow> bool" where
  "replaces_top top' v =
     (case top' of None \<Rightarrow> True | Some t \<Rightarrow> sint (start_time_ms v) < sint (start_time_ms t))"

definition queue_visit :: "MaxQueue \<Rightarrow> CommandValue \<Rightarrow> MaxQueue" where
  "queue_visit q v =
     (if replaces_top (queue_top q) v then queue_emplace (Some v) (queue_pop q) else q)"

text \<open>The loop that empties the queue into \<^verbatim>\<open>older_commands_\<close>, skipping null entries.\<close>

function queue_drain :: "MaxQueue \<Rightarrow> CommandValue list" where
  "queue_drain q =
     (if q = [] then []
      else (case queue_top q of Some command \<Rightarrow> [command] | None \<Rightarrow> [])
           @ queue_drain (queue_pop q))"
  by pat_completeness auto
termination
proof (relation "measure length")
  show "wf (measure length)" by simp
next
  fix q :: MaxQueue
  assume ne: "q \<noteq> []"
  have mem: "queue_max m xs \<in> set (m # xs)" for m xs
    by (induction xs arbitrary: m) auto
  from ne obtain x xs where q: "q = x # xs" by (cases q) auto
  have "queue_top q \<in> set q"
    using mem[of x xs] by (simp add: queue_top_def q)
  then have "length (remove1 (queue_top q) q) < length q"
    using ne by (simp add: length_remove1)
  then show "(queue_pop q, q) \<in> measure length"
    by (simp add: queue_pop_def)
qed

declare queue_drain.simps [simp del]

text \<open>
  The selection of \<^verbatim>\<open>PrintPending\<close>: the queue starts with \<open>max_commands\<close> null entries,
  every pending command is visited in the iteration order of the hash map, and the queue
  is emptied.  The result is \<^verbatim>\<open>older_commands_\<close>, newest first.
\<close>

definition older_commands :: "nat \<Rightarrow> CommandValue list \<Rightarrow> CommandValue list" where
  "older_commands max_commands' visited =
     queue_drain (foldl queue_visit (replicate max_commands' None) visited)"

subsection \<open>Rendering\<close>

definition to_int :: "int \<Rightarrow> int" where
  "to_int x = sint (word_of_int x :: 32 word)"

definition snprintf16 :: "string \<Rightarrow> string" where
  "snprintf16 s = take 15 s"

text \<open>
  The elapsed time is not negative where it is divided, so that the truncating division
  and remainder of C++ are \<open>div\<close> and \<open>mod\<close>.
\<close>

definition elapsed_buffer :: "int64 \<Rightarrow> int64 \<Rightarrow> string" where
  "elapsed_buffer build_time_ms start =
     (let elapsed_ms = sint (build_time_ms - start)
      in if elapsed_ms < 0 then snprintf16 ''??????''
         else if elapsed_ms < 60000
              then snprintf16 (printf_d (to_int (elapsed_ms div 1000)) @ ''.''
                               @ printf_d (to_int ((elapsed_ms mod 1000) div 100)) @ ''s'')
              else snprintf16 (printf_d (to_int (elapsed_ms div 60000)) @ ''m''
                               @ printf_d (to_int ((elapsed_ms mod 60000) div 1000)) @ ''s''))"

definition pending_line :: "int64 \<Rightarrow> CommandValue \<Rightarrow> string" where
  "pending_line build_time_ms command =
     (let elapsed = elapsed_buffer build_time_ms (start_time_ms command);
          justification_width = 6;
          elapsed_width = length elapsed
      in (if elapsed_width < justification_width
          then replicate (justification_width - elapsed_width) CHR '' '' else [])
         @ elapsed @ '' | '' @ description command)"

text \<open>
  \<open>PrintPending\<close> and \<open>UpdateTable\<close> return the table and the calls made to the
  terminal methods.  \<open>order\<close> is the iteration order of \<^verbatim>\<open>pending_commands_\<close>, which
  \<^verbatim>\<open>std::unordered_map\<close> leaves unspecified: a list of the keys of the map.
\<close>

definition PrintPending :: "StatusTable \<Rightarrow> int64 \<Rightarrow> CommandPointer list \<Rightarrow> StatusTable \<times> TermCall list" where
  "PrintPending t build_time_ms order =
     (let max_commands' = max_commands (table_config t)
      in if max_commands' = 0 then (t, [])
         else
           let visited = map (\<lambda>p. the (pending_commands t p)) order;
               older = older_commands max_commands' visited;
               lines = map (\<lambda>c. PrintOnNextLine (pending_line build_time_ms c)) (rev older);
               count = length older;
               next_height = count;
               clears = replicate (last_command_count t - count) ClearNextLine;
               count1 = max count (last_command_count t);
               status = (if count1 > 0 then [MoveUp count1, PrintOnCurrentLine (last_status t)]
                         else [])
           in (t\<lparr>last_command_count := next_height\<rparr>, lines @ clears @ status @ [Flush]))"

definition UpdateTable :: "StatusTable \<Rightarrow> int64 \<Rightarrow> CommandPointer list \<Rightarrow> StatusTable \<times> TermCall list" where
  "UpdateTable t build_time_ms order =
     (if 0 \<le> sint (last_update_time_ms t)
         \<and> sint (build_time_ms - last_update_time_ms t) < sint (refresh_timeout_ms (table_config t))
      then (t, [])
      else PrintPending (t\<lparr>last_update_time_ms := build_time_ms\<rparr>) build_time_ms order)"

definition ClearTable :: "StatusTable \<Rightarrow> StatusTable \<times> TermCall list" where
  "ClearTable t =
     (if last_command_count t = 0 then (t, [])
      else (t\<lparr>last_command_count := 0\<rparr>,
            replicate (last_command_count t) ClearNextLine
            @ [MoveUp (last_command_count t), Flush]))"

text \<open>A valid iteration order lists every key of the map once.\<close>

definition iteration_order :: "StatusTable \<Rightarrow> CommandPointer list \<Rightarrow> bool" where
  "iteration_order t order \<longleftrightarrow> distinct order \<and> set order = dom (pending_commands t)"

section \<open>Canonical path (canonical_path.h, canonical_path.cc)\<close>

text \<open>
  Modelled from the spec: \<^verbatim>\<open>CanonicalizePath\<close> (declared in \<^verbatim>\<open>util.h\<close>, defined in
  \<^verbatim>\<open>util.cc\<close>) is missing; the constructors of \<^verbatim>\<open>CanonicalPath\<close> only call it.  Following
  the spec's component design, the canonicalizer collapses consecutive separators,
  eliminates \<^verbatim>\<open>.\<close> segments, resolves \<^verbatim>\<open>..\<close> against the preceding segment, keeps a
  \<^verbatim>\<open>..\<close> that has no preceding segment to resolve against (also after an absolute
  root), collapses a leading \<^verbatim>\<open>//\<close> to \<^verbatim>\<open>/\<close> outside Windows, and leaves an otherwise
  empty result as \<^verbatim>\<open>.\<close>.  The model is the build without \<^verbatim>\<open>_WIN32\<close>, where the
  constructors ignore the slash bits.
\<close>

fun path_components :: "string \<Rightarrow> string list" where
  "path_components [] = [[]]"
| "path_components (c # cs) =
     (if c = CHR ''/'' then [] # path_components cs
      else (case path_components cs of
              [] \<Rightarrow> [[c]]
            | w # ws \<Rightarrow> (c # w) # ws))"

fun resolve_segments :: "string list \<Rightarrow> string list \<Rightarrow> string list" where
  "resolve_segments st [] = rev st"
| "resolve_segments st (c # cs) =
     (if c = [] \<or> c = ''.'' then resolve_segments st cs
      else if c = ''..''
           then (case st of
                   [] \<Rightarrow> resolve_segments [c] cs
                 | s # st' \<Rightarrow> if s = ''..'' then resolve_segments (c # st) cs
                              else resolve_segments st' cs)
           else resolve_segments (c # st) cs)"

fun join_segments :: "string list \<Rightarrow> string" where
  "join_segments [] = []"
| "join_segments [c] = c"
| "join_segments (c # cs) = c @ ''/'' @ join_segments cs"

definition CanonicalizePath :: "string \<Rightarrow> string" where
  "CanonicalizePath p =
     (case p of
        [] \<Rightarrow> []
      | c # _ \<Rightarrow>
          let body = join_segments (resolve_segments [] (path_components p));
              r = (if c = CHR ''/'' then CHR ''/'' # body else body)
          in if r = [] then ''.'' else r)"

text \<open>
  The class (member \<^verbatim>\<open>value_\<close>) and its constructor from a string, as in
  \<^verbatim>\<open>canonical_path.cc\<close>: the argument is stored and canonicalized in place.
\<close>

record CanonicalPath =
  path_value :: string

definition CanonicalPath_new :: "string \<Rightarrow> CanonicalPath" where
  "CanonicalPath_new p = \<lparr>path_value = CanonicalizePath p\<rparr>"

section \<open>Jobserver client and pool (jobserver-posix.cc)\<close>

type_synonym byte = "8 word"

text \<open>
  Modelled from the spec: \<^verbatim>\<open>Jobserver::Slot\<close> is declared in the missing \<^verbatim>\<open>jobserver.h\<close>.
  The spec's data model makes it a tagged value: Invalid, Implicit or Explicit with the
  token byte.  \<^verbatim>\<open>kModePipe\<close>, the name the POSIX file uses for the descriptor-pair mode,
  is the spec's FileDescriptors mode.
\<close>

datatype Slot = Invalid | Implicit | Explicit byte

abbreviation kModePipe :: Mode where
  "kModePipe \<equiv> kModeFileDescriptors"

definition IsValid :: "Slot \<Rightarrow> bool" where
  "IsValid s \<longleftrightarrow> s \<noteq> Invalid"

definition IsImplicit :: "Slot \<Rightarrow> bool" where
  "IsImplicit s \<longleftrightarrow> s = Implicit"

subsection \<open>The system calls\<close>

text \<open>
  The kernel is an environment that answers system calls.  The record lists the answers
  the kernel gives to the coming calls of each kind, and logs the calls made.  An answer
  is the value returned by the call, with \<^verbatim>\<open>errno\<close> where it is \<open>-1\<close>.  When the
  answers of a kind are used up, the next such call does not return (the caller is
  blocked, or interrupted for ever), and the function that made it has no result:
  \<open>None\<close>.  \<open>pipe_bytes\<close> collects the bytes that \<^verbatim>\<open>write\<close> calls answered with 1
  have put into the pipe or FIFO.
\<close>

datatype errno = EINTR | EAGAIN | EBADF | EPIPE | EMFILE | ENOENT | EEXIST | EACCES | EIO

datatype read_answer = ReadOne byte | ReadEof | ReadFailed errno

datatype write_answer = WriteOne | WriteNone | WriteFailed errno

datatype syscall =
    SysRead int nat
  | SysWrite int byte
  | SysPipe
  | SysMknod string
  | SysOpen string

record kernel =
  read_answers :: "read_answer list"
  write_answers :: "write_answer list"
  pipe_answer :: "errno + int \<times> int"
  mknod_answer :: "errno option"
  open_answers :: "(errno + int) list"
  env_TMPDIR :: "string option"
  pid :: int
  syscalls :: "syscall list"
  pipe_bytes :: "byte list"

subsection \<open>\<^verbatim>\<open>PosixJobserverClient\<close>\<close>

record Client =
  has_implicit_slot :: bool
  client_read_fd :: int
  client_write_fd :: int

text \<open>The \<^verbatim>\<open>do { ret = read(fd, &c, 1); } while (ret < 0 && errno == EINTR)\<close> loop.\<close>

fun read_retry :: "int \<Rightarrow> read_answer list \<Rightarrow> syscall list
    \<Rightarrow> (read_answer \<times> read_answer list \<times> syscall list) option" where
  "read_retry fd [] log = None"
| "read_retry fd (a # as) log =
     (if a = ReadFailed EINTR then read_retry fd as (log @ [SysRead fd 1])
      else Some (a, as, log @ [SysRead fd 1]))"

definition TryAcquire :: "Client \<Rightarrow> kernel \<Rightarrow> (Slot \<times> Client \<times> kernel) option" where
  "TryAcquire c k =
     (if has_implicit_slot c then Some (Implicit, c\<lparr>has_implicit_slot := False\<rparr>, k)
      else (case read_retry (client_read_fd c) (read_answers k) (syscalls k) of
              None \<Rightarrow> None
            | Some (a, as, log) \<Rightarrow>
                Some (case a of ReadOne slot_char \<Rightarrow> Explicit slot_char | _ \<Rightarrow> Invalid,
                      c, k\<lparr>read_answers := as, syscalls := log\<rparr>)))"

text \<open>The \<^verbatim>\<open>do { ret = write(fd, &c, 1); } while (ret < 0 && errno == EINTR)\<close> loop.\<close>

fun write_retry :: "int \<Rightarrow> byte \<Rightarrow> write_answer list \<Rightarrow> syscall list \<Rightarrow> byte list
    \<Rightarrow> (write_answer \<times> write_answer list \<times> syscall list \<times> byte list) option" where
  "write_retry fd b [] log bytes = None"
| "write_retry fd b (a # as) log bytes =
     (if a = WriteFailed EINTR then write_retry fd b as (log @ [SysWrite fd b]) bytes
      else Some (a, as, log @ [SysWrite fd b], if a = WriteOne then bytes @ [b] else bytes))"

datatype client_error = ImplicitSlotReleasedTwice

text \<open>
  \<open>Release\<close>, with the \<^verbatim>\<open>assert\<close> live: a failed assertion is the error
  \<open>ImplicitSlotReleasedTwice\<close>.
\<close>

definition Release :: "Client \<Rightarrow> Slot \<Rightarrow> kernel \<Rightarrow> (client_error + Client \<times> kernel) option" where
  "Release c slot k =
     (if \<not> IsValid slot then Some (Inr (c, k))
      else if IsImplicit slot
           then (if has_implicit_slot c then Some (Inl ImplicitSlotReleasedTwice)
                 else Some (Inr (c\<lparr>has_implicit_slot := True\<rparr>, k)))
           else (case slot of
                   Explicit slot_char \<Rightarrow>
                     (case write_retry (client_write_fd c) slot_char (write_answers k)
                             (syscalls k) (pipe_bytes k) of
                        None \<Rightarrow> None
                      | Some (a, as, log, bytes) \<Rightarrow>
                          Some (Inr (c, k\<lparr>write_answers := as, syscalls := log,
                                          pipe_bytes := bytes\<rparr>)))
                 | _ \<Rightarrow> Some (Inr (c, k))))"

text \<open>
  A caller that uses slots as the move-only resources they are: it keeps the valid
  slots it acquired and releases only slots it holds.  \<open>run\<close> performs a list of such
  operations on a client; releasing a slot that is not held is the caller's error
  \<open>NotHeld\<close>.
\<close>

datatype client_op = OpTryAcquire | OpRelease Slot

datatype run_error = AssertFailed | NotHeld

fun run :: "client_op list \<Rightarrow> Client \<Rightarrow> Slot list \<Rightarrow> kernel
    \<Rightarrow> (run_error + Client \<times> Slot list \<times> kernel) option" where
  "run [] c held k = Some (Inr (c, held, k))"
| "run (OpTryAcquire # ops) c held k =
     (case TryAcquire c k of
        None \<Rightarrow> None
      | Some (slot, c1, k1) \<Rightarrow> run ops c1 (if IsValid slot then slot # held else held) k1)"
| "run (OpRelease slot # ops) c held k =
     (if slot \<notin> set held then Some (Inl NotHeld)
      else (case Release c slot k of
              None \<Rightarrow> None
            | Some (Inl e) \<Rightarrow> Some (Inl AssertFailed)
            | Some (Inr (c1, k1)) \<Rightarrow> run ops c1 (remove1 slot held) k1))"

definition Client_new :: "int \<Rightarrow> int \<Rightarrow> Client" where
  "Client_new r w = \<lparr>has_implicit_slot = True, client_read_fd = r, client_write_fd = w\<rparr>"

text \<open>
  The implicit slot is either still with the client or among the slots the caller holds,
  and never both or twice.
\<close>

definition slot_invariant :: "Client \<Rightarrow> Slot list \<Rightarrow> bool" where
  "slot_invariant c held \<longleftrightarrow>
     count (mset held) Implicit + (if has_implicit_slot c then 1 else 0) = 1"

subsection \<open>\<^verbatim>\<open>PosixJobserverPool\<close>\<close>

record Pool =
  job_count :: nat
  pool_read_fd :: int
  pool_write_fd :: int
  fifo :: string

definition Pool_new :: Pool where
  "Pool_new = \<lparr>job_count = 0, pool_read_fd = - 1, pool_write_fd = - 1, fifo = []\<rparr>"

datatype pool_error =
    AtLeast2JobSlotsNeeded
  | UnsupportedJobserverMode
  | CouldNotCreatePipe errno
  | CannotCreateFifo errno
  | CouldNotOpenFifo errno
  | CouldNotFillPool write_answer

text \<open>
  \<open>FillSlots\<close>: the loop \<^verbatim>\<open>for (; slot_count > 1; --slot_count)\<close>.  Its \<^verbatim>\<open>continue\<close> on
  \<^verbatim>\<open>EINTR\<close> goes to the decrement of the loop, as every \<^verbatim>\<open>continue\<close> in a \<^verbatim>\<open>for\<close> loop
  does.
\<close>

fun FillSlots_loop :: "nat \<Rightarrow> int \<Rightarrow> kernel \<Rightarrow> (pool_error + kernel) option" where
  "FillSlots_loop slot_count fd k =
     (if slot_count > 1
      then (case write_answers k of
              [] \<Rightarrow> None
            | ret # as \<Rightarrow>
                let k1 = k\<lparr>write_answers := as,
                           syscalls := syscalls k @ [SysWrite fd 0x2B],
                           pipe_bytes := (if ret = WriteOne then pipe_bytes k @ [0x2B]
                                          else pipe_bytes k)\<rparr>
                in if ret \<noteq> WriteOne
                   then (if ret = WriteFailed EINTR then FillSlots_loop (slot_count - 1) fd k1
                         else Some (Inl (CouldNotFillPool ret)))
                   else FillSlots_loop (slot_count - 1) fd k1)
      else Some (Inr k))"

declare FillSlots_loop.simps [simp del]

definition FillSlots :: "Pool \<Rightarrow> nat \<Rightarrow> kernel \<Rightarrow> (pool_error + Pool \<times> kernel) option" where
  "FillSlots p slot_count k =
     (case FillSlots_loop slot_count (pool_write_fd p) k of
        None \<Rightarrow> None
      | Some (Inl e) \<Rightarrow> Some (Inl e)
      | Some (Inr k1) \<Rightarrow> Some (Inr (p\<lparr>job_count := slot_count\<rparr>, k1)))"

definition InitWithPipe :: "Pool \<Rightarrow> nat \<Rightarrow> kernel \<Rightarrow> (pool_error + Pool \<times> kernel) option" where
  "InitWithPipe p slot_count k =
     (let k1 = k\<lparr>syscalls := syscalls k @ [SysPipe]\<rparr>
      in case pipe_answer k of
           Inl e \<Rightarrow> Some (Inl (CouldNotCreatePipe e))
         | Inr (r, w) \<Rightarrow> FillSlots (p\<lparr>pool_read_fd := r, pool_write_fd := w\<rparr>) slot_count k1)"

text \<open>
  \<^verbatim>\<open>snprintf\<close> into a buffer of \<open>size\<close> characters followed by \<^verbatim>\<open>resize\<close> to the
  returned length: at most \<open>size - 1\<close> characters are stored, the rest of the resized
  string is NUL.
\<close>

definition snprintf_resize :: "nat \<Rightarrow> string \<Rightarrow> string" where
  "snprintf_resize size' s = take (size' - 1) s @ replicate (length s - (size' - 1)) (CHR 0x00)"

text \<open>The \<^verbatim>\<open>do { fd = open(...); } while (fd < 0 && errno == EINTR)\<close> loop.\<close>

fun open_retry :: "string \<Rightarrow> (errno + int) list \<Rightarrow> syscall list
    \<Rightarrow> ((errno + int) \<times> (errno + int) list \<times> syscall list) option" where
  "open_retry path' [] log = None"
| "open_retry path' (a # as) log =
     (if a = Inl EINTR then open_retry path' as (log @ [SysOpen path'])
      else Some (a, as, log @ [SysOpen path']))"

definition Pool_InitWithFifo :: "Pool \<Rightarrow> nat \<Rightarrow> kernel \<Rightarrow> (pool_error + Pool \<times> kernel) option" where
  "Pool_InitWithFifo p slot_count k =
     (let tmp_dir = (case env_TMPDIR k of None \<Rightarrow> ''/tmp'' | Some d \<Rightarrow> d);
          fifo' = snprintf_resize (length tmp_dir + 32)
                    (tmp_dir @ ''/NinjaFIFO'' @ printf_d (pid k));
          p1 = p\<lparr>fifo := fifo'\<rparr>;
          k1 = k\<lparr>syscalls := syscalls k @ [SysMknod fifo']\<rparr>
      in case mknod_answer k of
           Some e \<Rightarrow> Some (Inl (CannotCreateFifo e))
         | None \<Rightarrow>
             (case open_retry fifo' (open_answers k1) (syscalls k1) of
                None \<Rightarrow> None
              | Some (a, as, log) \<Rightarrow>
                  (case a of
                     Inl e \<Rightarrow> Some (Inl (CouldNotOpenFifo e))
                   | Inr fd \<Rightarrow>
                       FillSlots (p1\<lparr>pool_write_fd := fd\<rparr>) slot_count
                         (k1\<lparr>open_answers := as, syscalls := log\<rparr>))))"

definition Pool_Create :: "nat \<Rightarrow> Mode \<Rightarrow> kernel \<Rightarrow> (pool_error + Pool \<times> kernel) option" where
  "Pool_Create num_job_slots mode' k =
     (if num_job_slots < 2 then Some (Inl AtLeast2JobSlotsNeeded)
      else if mode' = kModePipe then InitWithPipe Pool_new num_job_slots k
      else if mode' = kModePosixFifo then Pool_InitWithFifo Pool_new num_job_slots k
      else Some (Inl UnsupportedJobserverMode))"

datatype fatal = Fatal string

text \<open>
  \<open>GetEnvMakeFlagsValue\<close>.  \<^verbatim>\<open>%zd\<close> prints the \<^verbatim>\<open>size_t\<close> job count as a signed 64-bit
  number, \<^verbatim>\<open>%zu\<close> as an unsigned one.
\<close>

definition format_checked :: "nat \<Rightarrow> string \<Rightarrow> fatal + string" where
  "format_checked size' s =
     (if length s > size' then Inl (Fatal ''Could not format PosixJobserverPool MAKEFLAGS!'')
      else Inr (snprintf_resize size' s))"

definition GetEnvMakeFlagsValue :: "Pool \<Rightarrow> fatal + string" where
  "GetEnvMakeFlagsValue p =
     (case (if fifo p \<noteq> []
            then format_checked (length (fifo p) + 32)
                   ('' -j'' @ printf_d (sint (word_of_nat (job_count p) :: 64 word))
                    @ '' --jobserver-auth=fifo:'' @ fifo p)
            else Inr []) of
        Inl e \<Rightarrow> Inl e
      | Inr result \<Rightarrow>
          if pool_read_fd p \<ge> 0 \<and> pool_write_fd p \<ge> 0
          then format_checked 256
                 ('' -j'' @ dec_nat (job_count p)
                  @ '' --jobserver-fds='' @ printf_d (pool_read_fd p) @ '','' @ printf_d (pool_write_fd p)
                  @ '' --jobserver-auth='' @ printf_d (pool_read_fd p) @ '','' @ printf_d (pool_write_fd p))
          else Inr result)"

section \<open>Subprocess and SubprocessSet on Windows (subprocess.h, subprocess-win32.cc)\<close>

text \<open>
  A \<^verbatim>\<open>HANDLE\<close> is a number; a pipe handle that may be \<^verbatim>\<open>INVALID_HANDLE_VALUE\<close> and a
  process handle that may be \<^verbatim>\<open>NULL\<close> are options.  A \<^verbatim>\<open>Subprocess*\<close> is an address in the
  store \<open>objects\<close> of the set.  The Win32 calls are answered by the environment: the
  answers are arguments of the functions that make the calls.  \<^verbatim>\<open>Fatal\<close> and
  \<^verbatim>\<open>Win32Fatal\<close> end the program: the result \<open>Inl\<close>.
\<close>

type_synonym HANDLE = nat

definition ERROR_FILE_NOT_FOUND :: nat where
  "ERROR_FILE_NOT_FOUND = 2"

definition ERROR_INVALID_PARAMETER :: nat where
  "ERROR_INVALID_PARAMETER = 87"

definition ERROR_BROKEN_PIPE :: nat where
  "ERROR_BROKEN_PIPE = 109"

definition ERROR_IO_PENDING :: nat where
  "ERROR_IO_PENDING = 997"

definition CONTROL_C_EXIT :: nat where
  "CONTROL_C_EXIT = 3221225786"

record OutputPipe =
  pipe_handle :: "HANDLE option"
  is_reading :: bool
  buf :: string

record Subprocess =
  combined_output :: string
  child :: "HANDLE option"
  stdout_pipe :: OutputPipe
  stderr_pipe :: OutputPipe
  use_console :: bool

definition OutputPipe_new :: OutputPipe where
  "OutputPipe_new = \<lparr>pipe_handle = None, is_reading = False, buf = []\<rparr>"

definition Subprocess_new :: "bool \<Rightarrow> Subprocess" where
  "Subprocess_new use_console' =
     \<lparr>combined_output = [], child = None, stdout_pipe = OutputPipe_new,
      stderr_pipe = OutputPipe_new, use_console = use_console'\<rparr>"

definition Close :: "OutputPipe \<Rightarrow> OutputPipe" where
  "Close p = p\<lparr>pipe_handle := None\<rparr>"

definition IsClosed :: "OutputPipe \<Rightarrow> bool" where
  "IsClosed p \<longleftrightarrow> pipe_handle p = None"

definition Done :: "Subprocess \<Rightarrow> bool" where
  "Done sp \<longleftrightarrow> IsClosed (stdout_pipe sp) \<and> IsClosed (stderr_pipe sp)"

definition GetStdout :: "Subprocess \<Rightarrow> string" where
  "GetStdout sp = buf (stdout_pipe sp)"

definition GetStderr :: "Subprocess \<Rightarrow> string" where
  "GetStderr sp = buf (stderr_pipe sp)"

text \<open>
  \<open>Setup\<close>: the answer is the handle of the named pipe created, or the fatal error of
  one of the calls that set it up.
\<close>

definition Setup :: "OutputPipe \<Rightarrow> fatal + HANDLE \<Rightarrow> fatal + OutputPipe" where
  "Setup p answer =
     (case answer of
        Inl f \<Rightarrow> Inl f
      | Inr h \<Rightarrow> Inr (p\<lparr>pipe_handle := Some h, is_reading := False\<rparr>))"

record start_answers =
  stdout_setup :: "fatal + HANDLE"
  stderr_setup :: "fatal + HANDLE"
  nul_opened :: bool
  create_process :: "nat + HANDLE"

definition not_found_msg :: string where
  "not_found_msg =
     ''CreateProcess failed: The system cannot find the file specified.'' @ [CHR 0x0A]"

text \<open>
  \<open>Start\<close>.  \<open>create_process\<close> is \<open>Inr\<close> the process handle when \<^verbatim>\<open>CreateProcessA\<close>
  succeeds and \<open>Inl\<close> the value of \<^verbatim>\<open>GetLastError()\<close> when it fails.
\<close>

definition Start :: "Subprocess \<Rightarrow> string \<Rightarrow> start_answers \<Rightarrow> fatal + bool \<times> Subprocess" where
  "Start sp command a =
     (case (if \<not> use_console sp
            then (case Setup (stdout_pipe sp) (stdout_setup a) of
                    Inl f \<Rightarrow> Inl f
                  | Inr out \<Rightarrow>
                      (case Setup (stderr_pipe sp) (stderr_setup a) of
                         Inl f \<Rightarrow> Inl f
                       | Inr err \<Rightarrow>
                           if \<not> nul_opened a then Inl (Fatal ''couldn't open nul'')
                           else Inr (sp\<lparr>stdout_pipe := out, stderr_pipe := err\<rparr>)))
            else Inr sp) of
        Inl f \<Rightarrow> Inl f
      | Inr sp1 \<Rightarrow>
          let error = (case create_process a of Inl e \<Rightarrow> e | Inr _ \<Rightarrow> 0)
          in if error = ERROR_FILE_NOT_FOUND
             then Inr (True, sp1\<lparr>stdout_pipe := Close (stdout_pipe sp1),
                                 stderr_pipe := (Close (stderr_pipe sp1))\<lparr>buf := not_found_msg\<rparr>\<rparr>)
             else if error \<noteq> 0 then Inl (Fatal ''CreateProcess'')
             else Inr (True, sp1\<lparr>child := (case create_process a of
                                               Inl _ \<Rightarrow> None
                                             | Inr h \<Rightarrow> Some h)\<rparr>))"

datatype overlapped_result = GorFailed nat | GorBytes string

datatype readfile_result = RfOk | RfFailed nat

text \<open>
  \<open>OutputPipe::OnPipeReady\<close>: the first answer is that of \<^verbatim>\<open>GetOverlappedResult\<close> (the
  error, or the bytes of the completed operation), the second that of \<^verbatim>\<open>ReadFile\<close>.
\<close>

definition OnPipeReady :: "OutputPipe \<Rightarrow> overlapped_result \<Rightarrow> readfile_result \<Rightarrow> fatal + OutputPipe" where
  "OnPipeReady p gor rf =
     (case gor of
        GorFailed e \<Rightarrow>
          if e = ERROR_BROKEN_PIPE then Inr (Close p) else Inl (Fatal ''GetOverlappedResult'')
      | GorBytes bytes \<Rightarrow>
          let p1 = p\<lparr>buf := (if is_reading p \<and> bytes \<noteq> [] then buf p @ bytes else buf p),
                     is_reading := True\<rparr>
          in (case rf of
                RfOk \<Rightarrow> Inr p1
              | RfFailed e \<Rightarrow>
                  if e = ERROR_BROKEN_PIPE then Inr (Close p1)
                  else if e \<noteq> ERROR_IO_PENDING then Inl (Fatal ''ReadFile'')
                  else Inr p1))"

text \<open>
  Modelled from the spec: the enumeration \<^verbatim>\<open>ExitStatus\<close> is declared in the missing
  \<^verbatim>\<open>exit_status.h\<close>; the spec names Success, Interrupted and Failure.  The cast of
  another exit code to the enumeration is kept as \<open>ExitCode\<close>.
\<close>

datatype ExitStatus = ExitSuccess | ExitFailure | ExitInterrupted | ExitCode nat

definition Finish :: "Subprocess \<Rightarrow> nat \<Rightarrow> ExitStatus \<times> Subprocess" where
  "Finish sp exit_code =
     (if child sp = None then (ExitFailure, sp)
      else (if exit_code = CONTROL_C_EXIT then ExitInterrupted else ExitCode exit_code,
            sp\<lparr>child := None\<rparr>))"

record SubprocessSet =
  objects :: "nat \<rightharpoonup> Subprocess"
  running :: "nat list"
  finished :: "nat list"

definition SubprocessSet_new :: SubprocessSet where
  "SubprocessSet_new = \<lparr>objects = Map.empty, running = [], finished = []\<rparr>"

text \<open>\<open>Add\<close>: \<open>ptr\<close> is the address that \<^verbatim>\<open>new Subprocess\<close> returns.\<close>

definition Add :: "SubprocessSet \<Rightarrow> nat \<Rightarrow> string \<Rightarrow> bool \<Rightarrow> start_answers
    \<Rightarrow> fatal + SubprocessSet \<times> nat option" where
  "Add s ptr command use_console' a =
     (case Start (Subprocess_new use_console') command a of
        Inl f \<Rightarrow> Inl f
      | Inr (started, subprocess) \<Rightarrow>
          if \<not> started then Inr (s, None)
          else if child subprocess \<noteq> None
               then Inr (s\<lparr>objects := (objects s)(ptr \<mapsto> subprocess),
                           running := running s @ [ptr]\<rparr>, Some ptr)
               else Inr (s\<lparr>objects := (objects s)(ptr \<mapsto> subprocess),
                           finished := finished s @ [ptr]\<rparr>, Some ptr))"

datatype overlapped_ptr = StdoutOverlapped | StderrOverlapped | UnknownOverlapped

record completion =
  status_ok :: bool
  last_error :: nat
  subproc :: "nat option"
  overlapped :: overlapped_ptr
  overlapped_answer :: overlapped_result
  readfile_answer :: readfile_result

text \<open>
  \<open>DoWork\<close>: the completion is what \<^verbatim>\<open>GetQueuedCompletionStatus\<close> delivers, together
  with the answers to the calls of \<open>OnPipeReady\<close>.  A key that is no live object is
  a fatal error of the model.
\<close>

definition DoWork :: "SubprocessSet \<Rightarrow> completion \<Rightarrow> fatal + bool \<times> SubprocessSet" where
  "DoWork s ev =
     (if \<not> status_ok ev \<and> last_error ev \<noteq> ERROR_BROKEN_PIPE
      then Inl (Fatal ''GetQueuedCompletionStatus'')
      else (case subproc ev of
              None \<Rightarrow> Inr (True, s)
            | Some ptr \<Rightarrow>
                (case objects s ptr of
                   None \<Rightarrow> Inl (Fatal ''dangling subprocess pointer'')
                 | Some sp \<Rightarrow>
                     (case (if overlapped ev = StdoutOverlapped
                            then map_sum id (\<lambda>p. sp\<lparr>stdout_pipe := p\<rparr>)
                                   (OnPipeReady (stdout_pipe sp) (overlapped_answer ev) (readfile_answer ev))
                            else if overlapped ev = StderrOverlapped
                            then map_sum id (\<lambda>p. sp\<lparr>stderr_pipe := p\<rparr>)
                                   (OnPipeReady (stderr_pipe sp) (overlapped_answer ev) (readfile_answer ev))
                            else Inl (Fatal ''Unknown overlapped pointer'')) of
                        Inl f \<Rightarrow> Inl f
                      | Inr sp1 \<Rightarrow>
                          let s1 = s\<lparr>objects := (objects s)(ptr \<mapsto> sp1)\<rparr>
                          in if Done sp1 \<and> ptr \<in> set (running s1)
                             then Inr (False, s1\<lparr>finished := finished s1 @ [ptr],
                                                 running := filter (\<lambda>x. x \<noteq> ptr) (running s1)\<rparr>)
                             else Inr (False, s1)))))"

definition NextFinished :: "SubprocessSet \<Rightarrow> nat option \<times> SubprocessSet" where
  "NextFinished s =
     (case finished s of
        [] \<Rightarrow> (None, s)
      | ptr # rest \<Rightarrow> (Some ptr, s\<lparr>finished := rest\<rparr>))"

text \<open>The caller's loop around \<open>DoWork\<close>, for a list of completions.\<close>

fun DoWork_all :: "SubprocessSet \<Rightarrow> completion list \<Rightarrow> fatal + SubprocessSet" where
  "DoWork_all s [] = Inr s"
| "DoWork_all s (ev # evs) =
     (case DoWork s ev of
        Inl f \<Rightarrow> Inl f
      | Inr (_, s1) \<Rightarrow> DoWork_all s1 evs)"

text \<open>Every subprocess in the finished queue is a live object with both pipes closed.\<close>

definition finished_Done :: "SubprocessSet \<Rightarrow> bool" where
  "finished_Done s \<longleftrightarrow> list_all (\<lambda>p. case objects s p of None \<Rightarrow> False | Some sp \<Rightarrow> Done sp) (finished s)"

section \<open>Properties of the parser\<close>


























section \<open>Properties of the canonical path\<close>

text \<open>
  Claim C4, as amended.  The claim gives the value \<^verbatim>\<open>../bar.h\<close>; the canonical value of
  \<^verbatim>\<open>./x/foo/../../bar.h\<close> is \<^verbatim>\<open>bar.h\<close>: the \<^verbatim>\<open>.\<close> segment is eliminated and each of the
  two \<^verbatim>\<open>..\<close> segments is resolved against the segment before it (\<^verbatim>\<open>foo\<close>, then
  \<^verbatim>\<open>x\<close>), so that no leading \<^verbatim>\<open>..\<close> is left.  This is the value the repository's test
  \<^verbatim>\<open>CanonicalPath.PathSamples\<close> expects; \<^verbatim>\<open>../bar.h\<close> is the value of
  \<^verbatim>\<open>./x/../foo/../../bar.h\<close>.
\<close>

theorem canonical_path_sample:
  "path_value (CanonicalPath_new ''./x/foo/../../bar.h'') = ''bar.h''
   \<and> path_value (CanonicalPath_new ''./x/../foo/../../bar.h'') = ''../bar.h''"
  by (simp add: CanonicalPath_new_def CanonicalizePath_def)

text \<open>The counterexample to claim C4 as stated: the canonical value is not \<^verbatim>\<open>../bar.h\<close>.\<close>

theorem canonical_path_sample_counterexample:
  "path_value (CanonicalPath_new ''./x/foo/../../bar.h'') \<noteq> ''../bar.h''"
  by (simp add: CanonicalPath_new_def CanonicalizePath_def)

section \<open>Properties of the status table\<close>

lemma perm3:
  assumes "distinct xs" and "set xs = {a, b, c}" and "a \<noteq> b" and "a \<noteq> c" and "b \<noteq> c"
  shows "xs \<in> {[a,b,c],[a,c,b],[b,a,c],[b,c,a],[c,a,b],[c,b,a]}"
proof -
  have "length xs = card (set xs)" using assms(1) by (simp add: distinct_card)
  also have "\<dots> = 3" using assms(3-5) by (simp add: assms(2))
  finally have "length xs = 3" .
  then obtain x y z where xs: "xs = [x, y, z]"
    by (auto simp: length_Suc_conv numeral_3_eq_3)
  have "x \<in> {a,b,c}" "y \<in> {a,b,c}" "z \<in> {a,b,c}"
    using assms(2) unfolding xs by auto
  moreover have "x \<noteq> y" "x \<noteq> z" "y \<noteq> z" using assms(1) unfolding xs by auto
  ultimately show ?thesis unfolding xs by auto
qed

lemma dec_nat_small: "n < 10 \<Longrightarrow> dec_nat n = [digit_char n]"
  by (subst dec_nat.simps) simp

lemma length_dec_nat_100: "n < 100 \<Longrightarrow> length (dec_nat n) \<le> 2"
  by (subst dec_nat.simps) (simp add: dec_nat_small)

lemma to_int_small: "- 2147483648 \<le> x \<Longrightarrow> x < 2147483648 \<Longrightarrow> to_int x = x"
  unfolding to_int_def by (simp add: int_word_sint)

lemma div_bounds:
  fixes e :: int
  assumes "0 \<le> e" and "e < 60000"
  shows "0 \<le> e div 1000" and "e div 1000 < 60"
    and "0 \<le> e mod 1000 div 100" and "e mod 1000 div 100 < 10"
proof -
  show "0 \<le> e div 1000" using assms by simp
  show "e div 1000 < 60" using assms by simp
  have m: "0 \<le> e mod 1000" "e mod 1000 < 1000" by simp_all
  show "0 \<le> e mod 1000 div 100" using m by simp
  show "e mod 1000 div 100 < 10" using m(2) by simp
qed

lemma elapsed_buffer_under_minute:
  assumes "0 \<le> sint (now - start)" and "sint (now - start) < 60000"
  shows "elapsed_buffer now start =
           printf_d (sint (now - start) div 1000) @ ''.''
           @ printf_d (sint (now - start) mod 1000 div 100) @ ''s''"
    and "length (elapsed_buffer now start) \<le> 5"
proof -
  let ?e = "sint (now - start)"
  have q: "0 \<le> ?e div 1000" "?e div 1000 < 60"
    using div_bounds(1,2)[OF assms] by simp_all
  have r: "0 \<le> ?e mod 1000 div 100" "?e mod 1000 div 100 < 10"
    using div_bounds(3,4)[OF assms] by simp_all
  have c1: "to_int (?e div 1000) = ?e div 1000" using q by (intro to_int_small) linarith+
  have c2: "to_int (?e mod 1000 div 100) = ?e mod 1000 div 100" using r by (intro to_int_small) linarith+
  have l1: "length (printf_d (?e div 1000)) \<le> 2"
    using q length_dec_nat_100[of "nat (?e div 1000)"] by (simp add: printf_d_def)
  have l2: "length (printf_d (?e mod 1000 div 100)) = 1"
    using r dec_nat_small[of "nat (?e mod 1000 div 100)"] by (simp add: printf_d_def)
  have len: "length (printf_d (?e div 1000) @ ''.'' @ printf_d (?e mod 1000 div 100) @ ''s'') \<le> 5"
    using l1 l2 by simp
  show eq: "elapsed_buffer now start =
           printf_d (?e div 1000) @ ''.'' @ printf_d (?e mod 1000 div 100) @ ''s''"
    using assms len unfolding elapsed_buffer_def Let_def snprintf16_def c1 c2 by simp
  show "length (elapsed_buffer now start) \<le> 5" using len unfolding eq .
qed

text \<open>
  Claim C3.  A table with \<open>max_commands = 2\<close> and \<open>refresh_timeout_ms = 100\<close>, after
  \<open>SetStatus "some_status"\<close> and three \<open>CommandStarted\<close> calls at 0, 250 and 570 ms with
  descriptions command_1, command_2, command_3, emits on a first \<open>UpdateTable 570\<close>
  exactly the calls PrintOnNextLine("  0.5s | command_1"),
  PrintOnNextLine("  0.3s | command_2"), MoveUp(2), PrintOnCurrentLine("some_status"),
  Flush(), whatever the iteration order of the hash map is.  An elapsed time under 60 s
  is rendered as \<^verbatim>\<open>%d.%ds\<close>, seconds and tenths, the tenths by integer division of the
  milliseconds by 100, and is right-justified in a field of 6 columns.
\<close>

theorem status_table_render_trace:
  "(\<forall>order.
      iteration_order
        (CommandStarted (CommandStarted (CommandStarted
           (SetStatus (StatusTable_new \<lparr>max_commands = 2, refresh_timeout_ms = 100\<rparr>) ''some_status'')
           1 0 ''command_1'') 2 250 ''command_2'') 3 570 ''command_3'') order
      \<longrightarrow> snd (UpdateTable
             (CommandStarted (CommandStarted (CommandStarted
                (SetStatus (StatusTable_new \<lparr>max_commands = 2, refresh_timeout_ms = 100\<rparr>) ''some_status'')
                1 0 ''command_1'') 2 250 ''command_2'') 3 570 ''command_3'') 570 order)
          = [PrintOnNextLine ''  0.5s | command_1'', PrintOnNextLine ''  0.3s | command_2'',
             MoveUp 2, PrintOnCurrentLine ''some_status'', Flush])
   \<and> (\<forall>now c. 0 \<le> sint (now - start_time_ms c) \<and> sint (now - start_time_ms c) < 60000 \<longrightarrow>
         elapsed_buffer now (start_time_ms c)
           = printf_d (sint (now - start_time_ms c) div 1000) @ ''.''
             @ printf_d (sint (now - start_time_ms c) mod 1000 div 100) @ ''s''
         \<and> pending_line now c
           = replicate (6 - length (elapsed_buffer now (start_time_ms c))) CHR '' ''
             @ elapsed_buffer now (start_time_ms c) @ '' | '' @ description c
         \<and> length (replicate (6 - length (elapsed_buffer now (start_time_ms c))) CHR '' ''
                   @ elapsed_buffer now (start_time_ms c)) = 6)"
proof (intro conjI allI impI)
  fix order
  let ?t = "CommandStarted (CommandStarted (CommandStarted
           (SetStatus (StatusTable_new \<lparr>max_commands = 2, refresh_timeout_ms = 100\<rparr>) ''some_status'')
           1 0 ''command_1'') 2 250 ''command_2'') 3 570 ''command_3''"
  let ?v1 = "\<lparr>start_time_ms = 0, command_id = 1, description = ''command_1''\<rparr>"
  let ?v2 = "\<lparr>start_time_ms = 250, command_id = 2, description = ''command_2''\<rparr>"
  let ?v3 = "\<lparr>start_time_ms = 570, command_id = 3, description = ''command_3''\<rparr>"
  assume io: "iteration_order ?t order"
  have t: "?t = \<lparr>table_config = \<lparr>max_commands = 2, refresh_timeout_ms = 100\<rparr>,
                 last_command_count = 0, last_command_id = 3, last_update_time_ms = - 1,
                 last_status = ''some_status'',
                 pending_commands = [1 \<mapsto> ?v1, 2 \<mapsto> ?v2, 3 \<mapsto> ?v3]\<rparr>"
    by (simp add: CommandStarted_def SetStatus_def StatusTable_new_def Let_def)
  have "dom (pending_commands ?t) = {1, 2, 3}"
    unfolding t by (simp add: insert_commute)
  with io have "distinct order" and "set order = {1, 2, 3}"
    by (simp_all add: iteration_order_def)
  then have "order \<in> {[1,2,3],[1,3,2],[2,1,3],[2,3,1],[3,1,2],[3,2,1]}"
    by (intro perm3) simp_all
  then have "map (\<lambda>p. the (pending_commands ?t p)) order
        \<in> {[?v1,?v2,?v3],[?v1,?v3,?v2],[?v2,?v1,?v3],[?v2,?v3,?v1],[?v3,?v1,?v2],[?v3,?v2,?v1]}"
    unfolding t by auto
  moreover have "older_commands 2 [?v1,?v2,?v3] = [?v2, ?v1]" by code_simp
  moreover have "older_commands 2 [?v1,?v3,?v2] = [?v2, ?v1]" by code_simp
  moreover have "older_commands 2 [?v2,?v1,?v3] = [?v2, ?v1]" by code_simp
  moreover have "older_commands 2 [?v2,?v3,?v1] = [?v2, ?v1]" by code_simp
  moreover have "older_commands 2 [?v3,?v1,?v2] = [?v2, ?v1]" by code_simp
  moreover have "older_commands 2 [?v3,?v2,?v1] = [?v2, ?v1]" by code_simp
  ultimately have sel: "older_commands 2 (map (\<lambda>p. the (pending_commands ?t p)) order) = [?v2, ?v1]"
    by (elim insertE emptyE) simp_all
  have l1: "pending_line 570 ?v1 = ''  0.5s | command_1''" by code_simp
  have l2: "pending_line 570 ?v2 = ''  0.3s | command_2''" by code_simp
  have u: "UpdateTable ?t 570 order = PrintPending (?t\<lparr>last_update_time_ms := 570\<rparr>) 570 order"
    unfolding t by (simp add: UpdateTable_def)
  show "snd (UpdateTable ?t 570 order) = [PrintOnNextLine ''  0.5s | command_1'', PrintOnNextLine ''  0.3s | command_2'',
             MoveUp 2, PrintOnCurrentLine ''some_status'', Flush]"
    unfolding u using sel unfolding t by (simp add: PrintPending_def Let_def l1 l2)
next
  fix now :: int64 and c :: CommandValue
  assume a: "0 \<le> sint (now - start_time_ms c) \<and> sint (now - start_time_ms c) < 60000"
  then show "elapsed_buffer now (start_time_ms c)
           = printf_d (sint (now - start_time_ms c) div 1000) @ ''.''
             @ printf_d (sint (now - start_time_ms c) mod 1000 div 100) @ ''s''"
    by (intro elapsed_buffer_under_minute(1)) simp_all
  from a have len: "length (elapsed_buffer now (start_time_ms c)) \<le> 5"
    by (intro elapsed_buffer_under_minute(2)) simp_all
  then show "pending_line now c
           = replicate (6 - length (elapsed_buffer now (start_time_ms c))) CHR '' ''
             @ elapsed_buffer now (start_time_ms c) @ '' | '' @ description c"
    by (simp add: pending_line_def Let_def)
  from len show "length (replicate (6 - length (elapsed_buffer now (start_time_ms c))) CHR '' ''
                   @ elapsed_buffer now (start_time_ms c)) = 6"
    by simp
qed

theorem status_table_render_trace_witness:
  "snd (UpdateTable
          (CommandStarted (CommandStarted (CommandStarted
             (SetStatus (StatusTable_new \<lparr>max_commands = 2, refresh_timeout_ms = 100\<rparr>) ''some_status'')
             1 0 ''command_1'') 2 250 ''command_2'') 3 570 ''command_3'') 570 [3, 1, 2])
     = [PrintOnNextLine ''  0.5s | command_1'', PrintOnNextLine ''  0.3s | command_2'',
        MoveUp 2, PrintOnCurrentLine ''some_status'', Flush]
   \<and> pending_line 570 \<lparr>start_time_ms = 250, command_id = 2, description = ''command_2''\<rparr>
       = ''  0.3s | command_2''"
proof
  let ?t = "CommandStarted (CommandStarted (CommandStarted
             (SetStatus (StatusTable_new \<lparr>max_commands = 2, refresh_timeout_ms = 100\<rparr>) ''some_status'')
             1 0 ''command_1'') 2 250 ''command_2'') 3 570 ''command_3''"
  have io: "iteration_order ?t [3, 1, 2]"
    by (simp add: iteration_order_def CommandStarted_def SetStatus_def StatusTable_new_def
          Let_def insert_commute)
  from status_table_render_trace have
    "\<forall>order. iteration_order ?t order \<longrightarrow> snd (UpdateTable ?t 570 order)
         = [PrintOnNextLine ''  0.5s | command_1'', PrintOnNextLine ''  0.3s | command_2'',
            MoveUp 2, PrintOnCurrentLine ''some_status'', Flush]"
    by (rule conjunct1)
  with io show "snd (UpdateTable ?t 570 [3, 1, 2])
         = [PrintOnNextLine ''  0.5s | command_1'', PrintOnNextLine ''  0.3s | command_2'',
            MoveUp 2, PrintOnCurrentLine ''some_status'', Flush]"
    by blast
next
  let ?c = "\<lparr>start_time_ms = 250, command_id = 2, description = ''command_2''\<rparr>"
  have h: "0 \<le> sint (570 - start_time_ms ?c) \<and> sint (570 - start_time_ms ?c) < 60000"
    by simp
  have e: "printf_d (sint (570 - start_time_ms ?c) div 1000) @ ''.''
             @ printf_d (sint (570 - start_time_ms ?c) mod 1000 div 100) @ ''s'' = ''0.3s''"
    by code_simp
  from status_table_render_trace have
    "\<forall>now c. 0 \<le> sint (now - start_time_ms c) \<and> sint (now - start_time_ms c) < 60000 \<longrightarrow>
         elapsed_buffer now (start_time_ms c)
           = printf_d (sint (now - start_time_ms c) div 1000) @ ''.''
             @ printf_d (sint (now - start_time_ms c) mod 1000 div 100) @ ''s''
         \<and> pending_line now c
           = replicate (6 - length (elapsed_buffer now (start_time_ms c))) CHR '' ''
             @ elapsed_buffer now (start_time_ms c) @ '' | '' @ description c
         \<and> length (replicate (6 - length (elapsed_buffer now (start_time_ms c))) CHR '' ''
                   @ elapsed_buffer now (start_time_ms c)) = 6"
    by (rule conjunct2)
  from this[rule_format, OF h]
  have eb: "elapsed_buffer 570 (start_time_ms ?c)
              = printf_d (sint (570 - start_time_ms ?c) div 1000) @ ''.''
                @ printf_d (sint (570 - start_time_ms ?c) mod 1000 div 100) @ ''s''"
    and pl: "pending_line 570 ?c
              = replicate (6 - length (elapsed_buffer 570 (start_time_ms ?c))) CHR '' ''
                @ elapsed_buffer 570 (start_time_ms ?c) @ '' | '' @ description ?c"
    by blast+
  have eb': "elapsed_buffer 570 (start_time_ms ?c) = ''0.3s''"
    using eb e by (simp only:)
  show "pending_line 570 ?c = ''  0.3s | command_2''"
    unfolding pl eb' by (simp add: numeral_2_eq_2)
qed

















section \<open>Properties of the jobserver client\<close>





lemma write_retry_interrupted:
  "a \<noteq> WriteFailed EINTR \<Longrightarrow>
   write_retry fd b (replicate n (WriteFailed EINTR) @ a # rest) log bytes
     = Some (a, rest, log @ replicate (Suc n) (SysWrite fd b),
             if a = WriteOne then bytes @ [b] else bytes)"
proof (induction n arbitrary: log)
  case 0
  then show ?case by simp
next
  case (Suc n)
  then show ?case by (simp add: replicate_app_Cons_same)
qed

lemma TryAcquire_invariant:
  assumes "slot_invariant c held" and "TryAcquire c k = Some (slot, c1, k1)"
  shows "slot_invariant c1 (if IsValid slot then slot # held else held)"
proof (cases "has_implicit_slot c")
  case True
  with assms show ?thesis by (auto simp: TryAcquire_def slot_invariant_def IsValid_def)
next
  case False
  with assms(2) have "c1 = c" and "slot \<noteq> Implicit"
    by (auto simp: TryAcquire_def split: option.splits read_answer.splits)
  with assms(1) show ?thesis by (auto simp: slot_invariant_def)
qed

lemma Release_invariant:
  assumes "slot_invariant c held" and "slot \<in> set held"
  shows "Release c slot k \<noteq> Some (Inl e)"
    and "Release c slot k = Some (Inr (c1, k1)) \<Longrightarrow> slot_invariant c1 (remove1 slot held)"
proof -
  have imp: "slot = Implicit \<Longrightarrow> \<not> has_implicit_slot c"
    using assms by (auto simp: slot_invariant_def split: if_splits)
  show "Release c slot k \<noteq> Some (Inl e)"
    using imp by (cases slot) (auto simp: Release_def IsValid_def IsImplicit_def split: option.splits)
  assume r: "Release c slot k = Some (Inr (c1, k1))"
  show "slot_invariant c1 (remove1 slot held)"
  proof (cases slot)
    case Invalid
    with r assms show ?thesis
      by (auto simp: Release_def IsValid_def slot_invariant_def)
  next
    case Implicit
    with r imp have "c1 = c\<lparr>has_implicit_slot := True\<rparr>"
      by (auto simp: Release_def IsValid_def IsImplicit_def)
    with assms imp Implicit show ?thesis
      by (auto simp: slot_invariant_def)
  next
    case (Explicit b)
    with r have "c1 = c"
      by (auto simp: Release_def IsValid_def IsImplicit_def split: option.splits)
    with assms Explicit show ?thesis by (auto simp: slot_invariant_def)
  qed
qed

lemma run_invariant:
  assumes "slot_invariant c held"
  shows "case run ops c held k of
           None \<Rightarrow> True
         | Some (Inl e) \<Rightarrow> e = NotHeld
         | Some (Inr (c', held', k')) \<Rightarrow> slot_invariant c' held'"
  using assms
proof (induction ops arbitrary: c held k)
  case Nil
  then show ?case by simp
next
  case (Cons op ops)
  show ?case
  proof (cases op)
    case OpTryAcquire
    show ?thesis
    proof (cases "TryAcquire c k")
      case None
      then show ?thesis by (simp add: OpTryAcquire)
    next
      case (Some res)
      then obtain slot c1 k1 where res: "TryAcquire c k = Some (slot, c1, k1)"
        by (cases res) auto
      from TryAcquire_invariant[OF Cons.prems res]
      have "slot_invariant c1 (if IsValid slot then slot # held else held)" .
      from Cons.IH[OF this] show ?thesis by (simp add: OpTryAcquire res)
    qed
  next
    case (OpRelease slot)
    show ?thesis
    proof (cases "slot \<in> set held")
      case False
      then show ?thesis by (simp add: OpRelease)
    next
      case True
      show ?thesis
      proof (cases "Release c slot k")
        case None
        then show ?thesis using True by (simp add: OpRelease)
      next
        case (Some res)
        show ?thesis
        proof (cases res)
          case (Inl e)
          with Some Release_invariant(1)[OF Cons.prems True, of k e] show ?thesis by simp
        next
          case (Inr ck)
          then obtain c1 k1 where ck: "Release c slot k = Some (Inr (c1, k1))"
            using Some by (cases ck) auto
          from Release_invariant(2)[OF Cons.prems True ck]
          have "slot_invariant c1 (remove1 slot held)" .
          from Cons.IH[OF this] show ?thesis using True by (simp add: OpRelease ck)
        qed
      qed
    qed
  qed
qed

text \<open>
  Claim C8.  Releasing an Invalid slot changes nothing and makes no system call.
  Releasing the Implicit slot gives it back to the client when the client does not hold
  it, and fails the assertion when it does.  Releasing \<open>Explicit b\<close> writes the byte
  \<open>b\<close> to the write descriptor, again after each \<^verbatim>\<open>EINTR\<close>, and returns with the first
  other answer: whatever that answer is, also an error, the client is unchanged and no
  error is reported.  For a caller that releases only slots it holds, the implicit slot
  is with the client or with the caller, exactly once in all: a new client satisfies the
  invariant, every operation keeps it, at most one Implicit slot is held at any time,
  and the assertion never fails.
\<close>

theorem Release_semantics:
  "Release c Invalid k = Some (Inr (c, k))
   \<and> (\<not> has_implicit_slot c \<longrightarrow>
        Release c Implicit k = Some (Inr (c\<lparr>has_implicit_slot := True\<rparr>, k)))
   \<and> (has_implicit_slot c \<longrightarrow> Release c Implicit k = Some (Inl ImplicitSlotReleasedTwice))
   \<and> (write_answers k = replicate n (WriteFailed EINTR) @ a # rest \<and> a \<noteq> WriteFailed EINTR \<longrightarrow>
        Release c (Explicit b) k
          = Some (Inr (c, k\<lparr>write_answers := rest,
                            syscalls := syscalls k @ replicate (Suc n) (SysWrite (client_write_fd c) b),
                            pipe_bytes := (if a = WriteOne then pipe_bytes k @ [b]
                                           else pipe_bytes k)\<rparr>)))
   \<and> slot_invariant (Client_new r w) []
   \<and> (\<forall>ops c0 held0 k0.
         slot_invariant c0 held0 \<longrightarrow>
         (case run ops c0 held0 k0 of
            None \<Rightarrow> True
          | Some (Inl e) \<Rightarrow> e = NotHeld
          | Some (Inr (c', held', k')) \<Rightarrow>
              slot_invariant c' held' \<and> count (mset held') Implicit \<le> 1))"
proof (intro conjI impI allI)
  show "Release c Invalid k = Some (Inr (c, k))"
    by (simp add: Release_def IsValid_def)
next
  assume "\<not> has_implicit_slot c"
  then show "Release c Implicit k = Some (Inr (c\<lparr>has_implicit_slot := True\<rparr>, k))"
    by (simp add: Release_def IsValid_def IsImplicit_def)
next
  assume "has_implicit_slot c"
  then show "Release c Implicit k = Some (Inl ImplicitSlotReleasedTwice)"
    by (simp add: Release_def IsValid_def IsImplicit_def)
next
  assume h: "write_answers k = replicate n (WriteFailed EINTR) @ a # rest \<and> a \<noteq> WriteFailed EINTR"
  then have w: "write_retry (client_write_fd c) b (write_answers k) (syscalls k) (pipe_bytes k)
      = Some (a, rest, syscalls k @ replicate (Suc n) (SysWrite (client_write_fd c) b),
              if a = WriteOne then pipe_bytes k @ [b] else pipe_bytes k)"
    using write_retry_interrupted[of a "client_write_fd c" b n rest "syscalls k" "pipe_bytes k"]
    by simp
  show "Release c (Explicit b) k
          = Some (Inr (c, k\<lparr>write_answers := rest,
                            syscalls := syscalls k @ replicate (Suc n) (SysWrite (client_write_fd c) b),
                            pipe_bytes := (if a = WriteOne then pipe_bytes k @ [b]
                                           else pipe_bytes k)\<rparr>))"
    by (simp add: Release_def IsValid_def IsImplicit_def w)
next
  show "slot_invariant (Client_new r w) []"
    by (simp add: slot_invariant_def Client_new_def)
next
  fix ops c0 held0 k0
  assume inv: "slot_invariant c0 held0"
  have le: "slot_invariant c' held' \<Longrightarrow> count (mset held') Implicit \<le> 1" for c' held'
    by (simp add: slot_invariant_def split: if_splits)
  from run_invariant[OF inv, of ops k0] le
  show "case run ops c0 held0 k0 of
            None \<Rightarrow> True
          | Some (Inl e) \<Rightarrow> e = NotHeld
          | Some (Inr (c', held', k')) \<Rightarrow>
              slot_invariant c' held' \<and> count (mset held') Implicit \<le> 1"
    by (auto split: option.splits sum.splits)
qed

theorem Release_semantics_witness:
  "Release \<lparr>has_implicit_slot = False, client_read_fd = 3, client_write_fd = 4\<rparr> Implicit
       \<lparr>read_answers = [], write_answers = [], pipe_answer = Inl EMFILE, mknod_answer = None,
        open_answers = [], env_TMPDIR = None, pid = 1, syscalls = [], pipe_bytes = []\<rparr>
     = Some (Inr (\<lparr>has_implicit_slot = True, client_read_fd = 3, client_write_fd = 4\<rparr>,
             \<lparr>read_answers = [], write_answers = [], pipe_answer = Inl EMFILE, mknod_answer = None,
              open_answers = [], env_TMPDIR = None, pid = 1, syscalls = [], pipe_bytes = []\<rparr>))
   \<and> Release \<lparr>has_implicit_slot = True, client_read_fd = 3, client_write_fd = 4\<rparr> Implicit
       \<lparr>read_answers = [], write_answers = [], pipe_answer = Inl EMFILE, mknod_answer = None,
        open_answers = [], env_TMPDIR = None, pid = 1, syscalls = [], pipe_bytes = []\<rparr>
     = Some (Inl ImplicitSlotReleasedTwice)
   \<and> Release \<lparr>has_implicit_slot = False, client_read_fd = 3, client_write_fd = 4\<rparr> (Explicit 0x2B)
       \<lparr>read_answers = [], write_answers = [WriteFailed EINTR, WriteFailed EPIPE],
        pipe_answer = Inl EMFILE, mknod_answer = None,
        open_answers = [], env_TMPDIR = None, pid = 1, syscalls = [], pipe_bytes = []\<rparr>
     = Some (Inr (\<lparr>has_implicit_slot = False, client_read_fd = 3, client_write_fd = 4\<rparr>,
             \<lparr>read_answers = [], write_answers = [],
              pipe_answer = Inl EMFILE, mknod_answer = None,
              open_answers = [], env_TMPDIR = None, pid = 1,
              syscalls = [SysWrite 4 0x2B, SysWrite 4 0x2B], pipe_bytes = []\<rparr>))
   \<and> slot_invariant \<lparr>has_implicit_slot = True, client_read_fd = 3, client_write_fd = 4\<rparr>
         [Explicit 0x2B]"
proof (intro conjI)
  let ?k = "\<lparr>read_answers = [], write_answers = [], pipe_answer = Inl EMFILE, mknod_answer = None,
        open_answers = [], env_TMPDIR = None, pid = 1, syscalls = [], pipe_bytes = []\<rparr>"
  show "Release \<lparr>has_implicit_slot = False, client_read_fd = 3, client_write_fd = 4\<rparr> Implicit ?k
     = Some (Inr (\<lparr>has_implicit_slot = True, client_read_fd = 3, client_write_fd = 4\<rparr>, ?k))"
    using Release_semantics
      [of "\<lparr>has_implicit_slot = False, client_read_fd = 3, client_write_fd = 4\<rparr>" ?k]
    by simp
  show "Release \<lparr>has_implicit_slot = True, client_read_fd = 3, client_write_fd = 4\<rparr> Implicit ?k
     = Some (Inl ImplicitSlotReleasedTwice)"
    using Release_semantics
      [of "\<lparr>has_implicit_slot = True, client_read_fd = 3, client_write_fd = 4\<rparr>" ?k]
    by simp
next
  let ?c = "\<lparr>has_implicit_slot = False, client_read_fd = 3, client_write_fd = 4\<rparr>"
  let ?k = "\<lparr>read_answers = [], write_answers = [WriteFailed EINTR, WriteFailed EPIPE],
        pipe_answer = Inl EMFILE, mknod_answer = None,
        open_answers = [], env_TMPDIR = None, pid = 1, syscalls = [], pipe_bytes = []\<rparr>"
  have h: "write_answers ?k = replicate (Suc 0) (WriteFailed EINTR) @ WriteFailed EPIPE # []
           \<and> WriteFailed EPIPE \<noteq> WriteFailed EINTR"
    by simp
  from Release_semantics[of ?c ?k "Suc 0" "WriteFailed EPIPE" "[]" "0x2B"] h
  have "Release ?c (Explicit 0x2B) ?k
          = Some (Inr (?c, ?k\<lparr>write_answers := [],
                            syscalls := syscalls ?k @ replicate (Suc (Suc 0)) (SysWrite (client_write_fd ?c) 0x2B),
                            pipe_bytes := (if WriteFailed EPIPE = WriteOne then pipe_bytes ?k @ [0x2B]
                                           else pipe_bytes ?k)\<rparr>))"
    by blast
  then show "Release ?c (Explicit 0x2B) ?k
     = Some (Inr (?c,
             \<lparr>read_answers = [], write_answers = [],
              pipe_answer = Inl EMFILE, mknod_answer = None,
              open_answers = [], env_TMPDIR = None, pid = 1,
              syscalls = [SysWrite 4 0x2B, SysWrite 4 0x2B], pipe_bytes = []\<rparr>))"
    by simp
next
  let ?k = "\<lparr>read_answers = [ReadOne 0x2B], write_answers = [], pipe_answer = Inl EMFILE,
        mknod_answer = None, open_answers = [], env_TMPDIR = None, pid = 1, syscalls = [],
        pipe_bytes = []\<rparr>"
  let ?ops = "[OpTryAcquire, OpTryAcquire, OpRelease Implicit]"
  have r: "run ?ops (Client_new 3 4) [] ?k
      = Some (Inr (\<lparr>has_implicit_slot = True, client_read_fd = 3, client_write_fd = 4\<rparr>,
                   [Explicit 0x2B],
                   ?k\<lparr>read_answers := [], syscalls := [SysRead 3 1]\<rparr>))"
    by (simp add: Client_new_def TryAcquire_def Release_def IsValid_def IsImplicit_def)
  from Release_semantics[of _ _ _ _ _ _ 3 4] have
    i0: "slot_invariant (Client_new 3 4) []" and
    step: "\<forall>ops c0 held0 k0.
         slot_invariant c0 held0 \<longrightarrow>
         (case run ops c0 held0 k0 of
            None \<Rightarrow> True
          | Some (Inl e) \<Rightarrow> e = NotHeld
          | Some (Inr (c', held', k')) \<Rightarrow>
              slot_invariant c' held' \<and> count (mset held') Implicit \<le> 1)"
    by blast+
  from step[rule_format, OF i0, of ?ops ?k]
  show "slot_invariant \<lparr>has_implicit_slot = True, client_read_fd = 3, client_write_fd = 4\<rparr>
         [Explicit 0x2B]"
    unfolding r by simp
qed

section \<open>Properties of the subprocess set on Windows\<close>

lemma Start_not_found:
  assumes "create_process a = Inl ERROR_FILE_NOT_FOUND"
    and "use_console' \<or> (\<exists>h1 h2. stdout_setup a = Inr h1 \<and> stderr_setup a = Inr h2 \<and> nul_opened a)"
  shows "\<exists>sp. Start (Subprocess_new use_console') command a = Inr (True, sp)
              \<and> Done sp \<and> GetStderr sp = not_found_msg \<and> GetStdout sp = []
              \<and> combined_output sp = [] \<and> child sp = None"
proof (cases use_console')
  case True
  with assms(1) show ?thesis
    by (simp add: Start_def Subprocess_new_def OutputPipe_new_def Close_def Done_def IsClosed_def
          GetStderr_def GetStdout_def)
next
  case False
  with assms(2) obtain h1 h2 where
    "stdout_setup a = Inr h1" "stderr_setup a = Inr h2" "nul_opened a" by auto
  with False assms(1) show ?thesis
    by (simp add: Start_def Setup_def Subprocess_new_def OutputPipe_new_def Close_def Done_def
          IsClosed_def GetStderr_def GetStdout_def)
qed

text \<open>
  Claim C9.  When \<^verbatim>\<open>CreateProcess\<close> fails with \<^verbatim>\<open>ERROR_FILE_NOT_FOUND\<close> (and the pipes of
  a non-console subprocess could be set up), \<open>Start\<close> returns true; both output pipes
  are closed, so that \<open>Done\<close> holds at once; the stderr buffer is the message that
  begins with "CreateProcess failed: "; there is no child handle; and \<open>Add\<close> puts the
  subprocess at the end of the finished queue and leaves the running list as it is.
  The caller gets it from \<open>NextFinished\<close> (first, when nothing else is finished), and
  \<open>Finish\<close> reports \<open>ExitFailure\<close>.
\<close>

theorem program_not_found:
  assumes "create_process a = Inl ERROR_FILE_NOT_FOUND"
    and "use_console' \<or> (\<exists>h1 h2. stdout_setup a = Inr h1 \<and> stderr_setup a = Inr h2 \<and> nul_opened a)"
  shows "\<exists>sp. Start (Subprocess_new use_console') command a = Inr (True, sp)
              \<and> Done sp
              \<and> GetStderr sp = not_found_msg
              \<and> take 22 (GetStderr sp) = ''CreateProcess failed: ''
              \<and> child sp = None
              \<and> Add s ptr command use_console' a
                  = Inr (s\<lparr>objects := (objects s)(ptr \<mapsto> sp), finished := finished s @ [ptr]\<rparr>,
                         Some ptr)
              \<and> running (fst (projr (Add s ptr command use_console' a))) = running s
              \<and> (finished s = [] \<longrightarrow>
                   fst (NextFinished (fst (projr (Add s ptr command use_console' a)))) = Some ptr)
              \<and> fst (Finish sp exit_code) = ExitFailure"
proof -
  from Start_not_found[OF assms, of command] obtain sp where
    st: "Start (Subprocess_new use_console') command a = Inr (True, sp)"
    and d: "Done sp" and e: "GetStderr sp = not_found_msg" and c: "child sp = None"
    by blast
  have add: "Add s ptr command use_console' a
      = Inr (s\<lparr>objects := (objects s)(ptr \<mapsto> sp), finished := finished s @ [ptr]\<rparr>, Some ptr)"
    by (simp add: Add_def st c)
  have m: "take 22 not_found_msg = ''CreateProcess failed: ''"
    by (simp add: not_found_msg_def)
  show ?thesis
    using st d e c add m
    by (intro exI[of _ sp]) (simp add: NextFinished_def Finish_def)
qed

theorem program_not_found_witness:
  "Add SubprocessSet_new 1 ''missing.exe''  False
      \<lparr>stdout_setup = Inr 10, stderr_setup = Inr 11, nul_opened = True,
       create_process = Inl ERROR_FILE_NOT_FOUND\<rparr>
   = Inr (SubprocessSet_new
           \<lparr>objects := (objects SubprocessSet_new)
              (1 \<mapsto> \<lparr>combined_output = [], child = None,
                      stdout_pipe = \<lparr>pipe_handle = None, is_reading = False, buf = []\<rparr>,
                      stderr_pipe = \<lparr>pipe_handle = None, is_reading = False,
                                     buf = not_found_msg\<rparr>,
                      use_console = False\<rparr>),
            finished := finished SubprocessSet_new @ [1]\<rparr>, Some 1)"
proof -
  let ?a = "\<lparr>stdout_setup = Inr 10, stderr_setup = Inr 11, nul_opened = True,
       create_process = Inl ERROR_FILE_NOT_FOUND\<rparr>"
  have h1: "create_process ?a = Inl ERROR_FILE_NOT_FOUND" by simp
  have h2: "False \<or> (\<exists>h1 h2. stdout_setup ?a = Inr h1 \<and> stderr_setup ?a = Inr h2 \<and> nul_opened ?a)"
    by simp
  from program_not_found[OF h1 h2, of "''missing.exe''" SubprocessSet_new 1 0]
  obtain sp where
    st: "Start (Subprocess_new False) ''missing.exe'' ?a = Inr (True, sp)"
    and add: "Add SubprocessSet_new 1 ''missing.exe'' False ?a
        = Inr (SubprocessSet_new\<lparr>objects := (objects SubprocessSet_new)(1 \<mapsto> sp),
                 finished := finished SubprocessSet_new @ [1]\<rparr>, Some 1)"
    by blast
  have "Start (Subprocess_new False) ''missing.exe'' ?a
      = Inr (True, \<lparr>combined_output = [], child = None,
                      stdout_pipe = \<lparr>pipe_handle = None, is_reading = False, buf = []\<rparr>,
                      stderr_pipe = \<lparr>pipe_handle = None, is_reading = False,
                                     buf = not_found_msg\<rparr>,
                      use_console = False\<rparr>)"
    by (simp add: Start_def Setup_def Subprocess_new_def OutputPipe_new_def Close_def)
  with st have "sp = \<lparr>combined_output = [], child = None,
                      stdout_pipe = \<lparr>pipe_handle = None, is_reading = False, buf = []\<rparr>,
                      stderr_pipe = \<lparr>pipe_handle = None, is_reading = False,
                                     buf = not_found_msg\<rparr>,
                      use_console = False\<rparr>"
    by simp
  with add show ?thesis by simp
qed

text \<open>
  The part of claim C5 that the code keeps: what \<open>NextFinished\<close> returns is \<open>Done\<close>.
  The invariant holds for the empty set and is kept by \<open>Add\<close> (at a fresh address, and
  when a failed \<^verbatim>\<open>CreateProcess\<close> reports a non-zero error), by \<open>DoWork\<close> and by
  \<open>NextFinished\<close>.
\<close>

lemma OnPipeReady_stays_closed:
  "OnPipeReady p g r = Inr p' \<Longrightarrow> IsClosed p \<Longrightarrow> IsClosed p'"
  by (auto simp: OnPipeReady_def Close_def IsClosed_def Let_def
           split: overlapped_result.splits readfile_result.splits if_splits)

lemma finished_Done_new: "finished_Done SubprocessSet_new"
  by (simp add: finished_Done_def SubprocessSet_new_def)

lemma finished_Done_Add:
  assumes "finished_Done s" and "ptr \<notin> set (finished s)" and "create_process a \<noteq> Inl 0"
    and "Add s ptr command use_console' a = Inr (s', r)"
  shows "finished_Done s'"
proof -
  from assms(4) obtain sp where st: "Start (Subprocess_new use_console') command a = Inr (True, sp)"
    by (auto simp: Add_def Start_def Let_def split: sum.splits if_splits)
  have keep: "list_all (\<lambda>p. case ((objects s)(ptr \<mapsto> sp)) p of None \<Rightarrow> False | Some sp \<Rightarrow> Done sp)
                (finished s)"
    using assms(1,2) by (auto simp: finished_Done_def list_all_iff)
  show ?thesis
  proof (cases "child sp")
    case (Some h)
    with assms(4) st keep show ?thesis by (auto simp: Add_def finished_Done_def)
  next
    case None
    have "Done sp"
      using st None assms(3)
      by (auto simp: Start_def Setup_def Subprocess_new_def OutputPipe_new_def Close_def Done_def
            IsClosed_def Let_def split: sum.splits if_splits)
    with assms(4) st keep None show ?thesis by (auto simp: Add_def finished_Done_def)
  qed
qed

lemma DoWork_object:
  assumes "DoWork s ev = Inr (b, s')" and "subproc ev = Some ptr" and "objects s ptr = Some sp"
  shows "\<exists>sp1. objects s' = (objects s)(ptr \<mapsto> sp1) \<and> (Done sp \<longrightarrow> Done sp1)
           \<and> (finished s' = finished s \<or> (finished s' = finished s @ [ptr] \<and> Done sp1))"
proof -
  let ?g = "overlapped_answer ev" and ?r = "readfile_answer ev"
  consider (out) "overlapped ev = StdoutOverlapped" | (err) "overlapped ev = StderrOverlapped"
    | (unk) "overlapped ev = UnknownOverlapped"
    by (cases "overlapped ev") auto
  then show ?thesis
  proof cases
    case out
    from assms out obtain p where p: "OnPipeReady (stdout_pipe sp) ?g ?r = Inr p"
      by (cases "OnPipeReady (stdout_pipe sp) ?g ?r") (auto simp: DoWork_def split: if_splits)
    have d: "Done sp \<Longrightarrow> Done (sp\<lparr>stdout_pipe := p\<rparr>)"
      using OnPipeReady_stays_closed[OF p] by (simp add: Done_def)
    from assms out p d show ?thesis
      by (intro exI[of _ "sp\<lparr>stdout_pipe := p\<rparr>"])
         (auto simp: DoWork_def Let_def split: if_splits)
  next
    case err
    from assms err obtain p where p: "OnPipeReady (stderr_pipe sp) ?g ?r = Inr p"
      by (cases "OnPipeReady (stderr_pipe sp) ?g ?r") (auto simp: DoWork_def split: if_splits)
    have d: "Done sp \<Longrightarrow> Done (sp\<lparr>stderr_pipe := p\<rparr>)"
      using OnPipeReady_stays_closed[OF p] by (simp add: Done_def)
    from assms err p d show ?thesis
      by (intro exI[of _ "sp\<lparr>stderr_pipe := p\<rparr>"])
         (auto simp: DoWork_def Let_def split: if_splits)
  next
    case unk
    with assms show ?thesis by (auto simp: DoWork_def split: if_splits)
  qed
qed

lemma finished_Done_DoWork:
  assumes "finished_Done s" and "DoWork s ev = Inr (b, s')"
  shows "finished_Done s'"
proof (cases "subproc ev")
  case None
  with assms show ?thesis by (auto simp: DoWork_def split: if_splits)
next
  case (Some ptr)
  from assms(2) Some obtain sp where sp: "objects s ptr = Some sp"
    by (auto simp: DoWork_def split: if_splits option.splits)
  from DoWork_object[OF assms(2) Some sp] obtain sp1 where
    o: "objects s' = (objects s)(ptr \<mapsto> sp1)" and d: "Done sp \<longrightarrow> Done sp1"
    and f: "finished s' = finished s \<or> (finished s' = finished s @ [ptr] \<and> Done sp1)"
    by blast
  have keep: "list_all (\<lambda>p. case objects s' p of None \<Rightarrow> False | Some sp \<Rightarrow> Done sp) (finished s)"
    using assms(1) sp d unfolding o
    by (auto simp: finished_Done_def list_all_iff split: option.splits)
  show ?thesis
    unfolding finished_Done_def list_all_iff
  proof
    fix p
    assume "p \<in> set (finished s')"
    with f consider "p \<in> set (finished s)" | "p = ptr" "Done sp1" by auto
    then show "case objects s' p of None \<Rightarrow> False | Some sp \<Rightarrow> Done sp"
    proof cases
      case 1
      with keep show ?thesis by (simp add: list_all_iff)
    next
      case 2
      then show ?thesis by (simp add: o)
    qed
  qed
qed

lemma finished_Done_NextFinished:
  assumes "finished_Done s" and "NextFinished s = (Some p, s')"
  shows "(\<exists>sp. objects s' p = Some sp \<and> Done sp) \<and> finished_Done s'"
  using assms
  by (auto simp: NextFinished_def finished_Done_def split: list.splits option.splits)

text \<open>
  Claim C5, at a failing input.  A subprocess is added and started; its stdout pipe
  connects, delivers the two bytes "hi" and breaks, then its stderr pipe breaks.  The
  subprocess comes out of \<open>NextFinished\<close> with \<open>Done\<close> true and "hi" in its stdout
  buffer, and with an empty combined output: the Windows code never appends to
  \<^verbatim>\<open>combined_output_\<close>, so its length (0) is not the sum of the lengths of the stdout and
  stderr buffers (2).
\<close>

theorem combined_output_not_maintained:
  "(case Add SubprocessSet_new 1 ''cmd'' False
           \<lparr>stdout_setup = Inr 10, stderr_setup = Inr 11, nul_opened = True,
            create_process = Inr 12\<rparr> of
      Inl f \<Rightarrow> None
    | Inr (s1, _) \<Rightarrow>
        (case DoWork_all s1
                [\<lparr>status_ok = True, last_error = 0, subproc = Some 1,
                  overlapped = StdoutOverlapped, overlapped_answer = GorBytes [],
                  readfile_answer = RfFailed ERROR_IO_PENDING\<rparr>,
                 \<lparr>status_ok = True, last_error = 0, subproc = Some 1,
                  overlapped = StdoutOverlapped, overlapped_answer = GorBytes ''hi'',
                  readfile_answer = RfFailed ERROR_IO_PENDING\<rparr>,
                 \<lparr>status_ok = True, last_error = 0, subproc = Some 1,
                  overlapped = StdoutOverlapped, overlapped_answer = GorFailed ERROR_BROKEN_PIPE,
                  readfile_answer = RfOk\<rparr>,
                 \<lparr>status_ok = True, last_error = 0, subproc = Some 1,
                  overlapped = StderrOverlapped, overlapped_answer = GorFailed ERROR_BROKEN_PIPE,
                  readfile_answer = RfOk\<rparr>] of
           Inl f \<Rightarrow> None
         | Inr s2 \<Rightarrow>
             (case NextFinished s2 of
                (None, _) \<Rightarrow> None
              | (Some p, s3) \<Rightarrow>
                  map_option
                    (\<lambda>sp. (p, Done sp, GetStdout sp, GetStderr sp, combined_output sp,
                           length (combined_output sp)
                             = length (GetStdout sp) + length (GetStderr sp)))
                    (objects s3 p))))
   = Some (1, True, ''hi'', [], [], False)"
  by (simp add: Add_def Start_def Setup_def Subprocess_new_def OutputPipe_new_def
        SubprocessSet_new_def DoWork_def OnPipeReady_def Close_def Done_def IsClosed_def
        NextFinished_def GetStdout_def GetStderr_def ERROR_BROKEN_PIPE_def ERROR_IO_PENDING_def
        ERROR_FILE_NOT_FOUND_def)

section \<open>Properties of the jobserver pool\<close>

lemma FillSlots_loop_done: "slot_count \<le> 1 \<Longrightarrow> FillSlots_loop slot_count fd k = Some (Inr k)"
  by (subst FillSlots_loop.simps) simp

lemma FillSlots_loop_written:
  "write_answers k = replicate n WriteOne @ rest \<Longrightarrow>
   FillSlots_loop (Suc n) fd k
     = Some (Inr (k\<lparr>write_answers := rest,
                     syscalls := syscalls k @ replicate n (SysWrite fd 0x2B),
                     pipe_bytes := pipe_bytes k @ replicate n 0x2B\<rparr>))"
proof (induction n arbitrary: k)
  case 0
  then show ?case by (simp add: FillSlots_loop_done)
next
  case (Suc n)
  let ?k1 = "k\<lparr>write_answers := replicate n WriteOne @ rest,
                syscalls := syscalls k @ [SysWrite fd 0x2B],
                pipe_bytes := pipe_bytes k @ [0x2B]\<rparr>"
  have "FillSlots_loop (Suc (Suc n)) fd k = FillSlots_loop (Suc n) fd ?k1"
    using Suc.prems by (subst FillSlots_loop.simps) simp
  also have "\<dots> = Some (Inr (?k1\<lparr>write_answers := rest,
                     syscalls := syscalls ?k1 @ replicate n (SysWrite fd 0x2B),
                     pipe_bytes := pipe_bytes ?k1 @ replicate n 0x2B\<rparr>))"
    by (rule Suc.IH) simp
  finally show ?case by (simp add: replicate_app_Cons_same)
qed

text \<open>
  Claim C1, at a failing input.  A pool of 2 slots is created in pipe mode; the kernel
  gives the descriptors 3 and 4 and answers the one \<^verbatim>\<open>write\<close> of \<open>FillSlots\<close> with
  \<^verbatim>\<open>EINTR\<close>.  The \<^verbatim>\<open>continue\<close> of the loop runs its decrement, the loop ends, and the
  creation succeeds with no token in the pipe, while the pool advertises \<^verbatim>\<open>-j2\<close> and its
  string parses back to the descriptor pair: a client of this pool gets its implicit
  slot and no explicit slot, one fewer than the \<open>N - 1\<close> of the claim.  When no write is
  interrupted, the same creation leaves the one token in the pipe.
\<close>

theorem FillSlots_loses_token_on_EINTR:
  "Pool_Create 2 kModePipe
      \<lparr>read_answers = [], write_answers = [WriteFailed EINTR], pipe_answer = Inr (3, 4),
       mknod_answer = None, open_answers = [], env_TMPDIR = None, pid = 1234,
       syscalls = [], pipe_bytes = []\<rparr>
   = Some (Inr (\<lparr>job_count = 2, pool_read_fd = 3, pool_write_fd = 4, fifo = []\<rparr>,
               \<lparr>read_answers = [], write_answers = [], pipe_answer = Inr (3, 4),
                mknod_answer = None, open_answers = [], env_TMPDIR = None, pid = 1234,
                syscalls = [SysPipe, SysWrite 4 0x2B], pipe_bytes = []\<rparr>))
   \<and> GetEnvMakeFlagsValue \<lparr>job_count = 2, pool_read_fd = 3, pool_write_fd = 4, fifo = []\<rparr>
       = Inr '' -j2 --jobserver-fds=3,4 --jobserver-auth=3,4''
   \<and> ParseMakeFlagsValue (Some '' -j2 --jobserver-fds=3,4 --jobserver-auth=3,4'')
       = Inr \<lparr>mode = kModeFileDescriptors, read_fd = 3, write_fd = 4, path = []\<rparr>
   \<and> Pool_Create 2 kModePipe
      \<lparr>read_answers = [], write_answers = [WriteOne], pipe_answer = Inr (3, 4),
       mknod_answer = None, open_answers = [], env_TMPDIR = None, pid = 1234,
       syscalls = [], pipe_bytes = []\<rparr>
   = Some (Inr (\<lparr>job_count = 2, pool_read_fd = 3, pool_write_fd = 4, fifo = []\<rparr>,
               \<lparr>read_answers = [], write_answers = [], pipe_answer = Inr (3, 4),
                mknod_answer = None, open_answers = [], env_TMPDIR = None, pid = 1234,
                syscalls = [SysPipe, SysWrite 4 0x2B], pipe_bytes = [0x2B]\<rparr>))"
  by code_simp

end
